theory Spec2Isabelle
  imports Complex_Main
begin

text \<open>
  A model of the YouTube watch-time counter: the duration formatters, the coordinator of
  the service worker (the record mapping, its aggregate, the badge, throttled persistence
  and the message handlers) and the per-page extractor of the content script. Each
  definition carries the name of the function it embeds.
\<close>

section \<open>JavaScript numbers\<close>

text \<open>
  A JavaScript \<open>number\<close> is modelled as an exact real or one of the three special
  values. The rounding and overflow of binary64 and the sign of zero are not modelled:
  arithmetic on finite values is exact arithmetic on reals.
\<close>

datatype jsnum = Num real | PosInfinity | NegInfinity | NaN

text \<open>\<open>Number.isFinite\<close>.\<close>

fun isFinite :: "jsnum \<Rightarrow> bool" where
  "isFinite (Num _) = True"
| "isFinite _ = False"

text \<open>The operators \<open>+\<close>, \<open>-\<close>, \<open>/\<close> and \<open>>\<close> on numbers.\<close>

fun num_add :: "jsnum \<Rightarrow> jsnum \<Rightarrow> jsnum" where
  "num_add NaN _ = NaN"
| "num_add _ NaN = NaN"
| "num_add (Num x) (Num y) = Num (x + y)"
| "num_add PosInfinity NegInfinity = NaN"
| "num_add NegInfinity PosInfinity = NaN"
| "num_add PosInfinity _ = PosInfinity"
| "num_add _ PosInfinity = PosInfinity"
| "num_add NegInfinity _ = NegInfinity"
| "num_add _ NegInfinity = NegInfinity"

fun num_neg :: "jsnum \<Rightarrow> jsnum" where
  "num_neg (Num x) = Num (- x)"
| "num_neg PosInfinity = NegInfinity"
| "num_neg NegInfinity = PosInfinity"
| "num_neg NaN = NaN"

definition num_sub :: "jsnum \<Rightarrow> jsnum \<Rightarrow> jsnum" where
  "num_sub a b = num_add a (num_neg b)"

fun num_div :: "jsnum \<Rightarrow> jsnum \<Rightarrow> jsnum" where
  "num_div NaN _ = NaN"
| "num_div _ NaN = NaN"
| "num_div (Num x) (Num y) =
     (if y \<noteq> 0 then Num (x / y)
      else if x = 0 then NaN
      else if 0 < x then PosInfinity else NegInfinity)"
| "num_div (Num _) _ = Num 0"
| "num_div PosInfinity (Num y) = (if 0 \<le> y then PosInfinity else NegInfinity)"
| "num_div NegInfinity (Num y) = (if 0 \<le> y then NegInfinity else PosInfinity)"
| "num_div _ _ = NaN"

fun num_gt :: "jsnum \<Rightarrow> jsnum \<Rightarrow> bool" where
  "num_gt (Num x) (Num y) = (y < x)"
| "num_gt PosInfinity (Num _) = True"
| "num_gt PosInfinity NegInfinity = True"
| "num_gt (Num _) NegInfinity = True"
| "num_gt _ _ = False"

text \<open>\<open>Math.max\<close> of two numbers: \<open>NaN\<close> if either is.\<close>

definition num_max :: "jsnum \<Rightarrow> jsnum \<Rightarrow> jsnum" where
  "num_max a b = (if a = NaN \<or> b = NaN then NaN else if num_gt a b then a else b)"

text \<open>Truthiness of a number: \<open>0\<close> and \<open>NaN\<close> are falsy.\<close>

definition num_truthy :: "jsnum \<Rightarrow> bool" where
  "num_truthy a = (a \<noteq> Num 0 \<and> a \<noteq> NaN)"

text \<open>The operator \<open>%\<close> on finite numbers: the remainder has the sign of the dividend.\<close>

definition jsRemainder :: "real \<Rightarrow> real \<Rightarrow> real" where
  "jsRemainder x y = x - y * of_int (if 0 \<le> x / y then \<lfloor>x / y\<rfloor> else \<lceil>x / y\<rceil>)"

section \<open>JavaScript strings\<close>

text \<open>
  Strings are lists of characters. \<open>natToString\<close> is the decimal text of a natural
  number, which is what a template literal prints for an integral number below \<open>10^21\<close>
  (beyond that JavaScript switches to exponent notation, which is not modelled).
\<close>

fun digitChar :: "nat \<Rightarrow> char" where
  "digitChar n = (''0123456789'' ! n)"

fun natToString :: "nat \<Rightarrow> string" where
  "natToString n =
     (if n < 10 then [digitChar n] else natToString (n div 10) @ [digitChar (n mod 10)])"

declare natToString.simps [simp del]

definition intToString :: "int \<Rightarrow> string" where
  "intToString i = (if i < 0 then CHR ''-'' # natToString (nat (- i)) else natToString (nat i))"

text \<open>\<open>s.padStart(n, c)\<close> for a one-character pad.\<close>

definition padStart :: "nat \<Rightarrow> char \<Rightarrow> string \<Rightarrow> string" where
  "padStart n c s = replicate (n - length s) c @ s"

text \<open>\<open>parts.join(sep)\<close>.\<close>

fun join :: "string \<Rightarrow> string list \<Rightarrow> string" where
  "join sep [] = []"
| "join sep [p] = p"
| "join sep (p # q # ps) = p @ sep @ join sep (q # ps)"

text \<open>\<open>s.startsWith(p)\<close>, which is also what a regular expression \<open>^p\<close> of literal
  characters tests.\<close>

definition startsWith :: "string \<Rightarrow> string \<Rightarrow> bool" where
  "startsWith s p = (take (length p) s = p)"

text \<open>\<open>s.includes(p)\<close>.\<close>

fun stringIncludes :: "string \<Rightarrow> string \<Rightarrow> bool" where
  "stringIncludes [] p = (p = [])"
| "stringIncludes (c # cs) p = (startsWith (c # cs) p \<or> stringIncludes cs p)"

text \<open>\<open>s.replace(p, r)\<close> with a string pattern: the first occurrence only.\<close>

fun replaceFirst :: "string \<Rightarrow> string \<Rightarrow> string \<Rightarrow> string" where
  "replaceFirst [] p r = (if p = [] then r else [])"
| "replaceFirst (c # cs) p r =
     (if startsWith (c # cs) p then r @ drop (length p) (c # cs)
      else c # replaceFirst cs p r)"

text \<open>White space as \<open>trim\<close> and \<open>\s\<close> see it, within ASCII: space, tab, line feed,
  vertical tab, form feed, carriage return.\<close>

definition isSpace :: "char \<Rightarrow> bool" where
  "isSpace c = (c \<in> set [CHR 0x20, CHR 0x09, CHR 0x0A, CHR 0x0B, CHR 0x0C, CHR 0x0D])"

definition trim :: "string \<Rightarrow> string" where
  "trim s = rev (dropWhile isSpace (rev (dropWhile isSpace s)))"

definition isDigit :: "char \<Rightarrow> bool" where
  "isDigit c = (c \<in> set ''0123456789'')"

text \<open>\<open>Number(ds)\<close> for a string of decimal digits.\<close>

definition digitValue :: "char \<Rightarrow> nat" where
  "digitValue c = of_char c - 48"

definition digitsToNat :: "string \<Rightarrow> nat" where
  "digitsToNat ds = foldl (\<lambda>acc c. 10 * acc + digitValue c) 0 ds"

section \<open>The duration formatters (utils/time-format)\<close>

definition formatDuration :: "jsnum \<Rightarrow> string" where
  "formatDuration totalSeconds =
     (case totalSeconds of
        Num x \<Rightarrow>
          if x < 0 then ''0m''
          else
            let hours = \<lfloor>x / 3600\<rfloor>;
                minutes = \<lfloor>jsRemainder x 3600 / 60\<rfloor>
            in if hours = 0 then intToString minutes @ ''m''
               else intToString hours @ ''h'' @ intToString minutes @ ''m''
      | _ \<Rightarrow> ''0m'')"

definition formatDurationLong :: "jsnum \<Rightarrow> string" where
  "formatDurationLong totalSeconds =
     (case totalSeconds of
        Num x \<Rightarrow>
          if x < 0 then ''0 minutes''
          else
            let hours = \<lfloor>x / 3600\<rfloor>;
                minutes = \<lfloor>jsRemainder x 3600 / 60\<rfloor>;
                seconds = \<lfloor>jsRemainder x 60\<rfloor>;
                parts1 = (if 0 < hours
                          then [intToString hours @ '' hour'' @ (if hours \<noteq> 1 then ''s'' else '''')]
                          else []);
                parts2 = parts1 @
                         (if 0 < minutes
                          then [intToString minutes @ '' minute'' @ (if minutes \<noteq> 1 then ''s'' else '''')]
                          else []);
                parts3 = parts2 @
                         (if length parts2 = 0
                          then [intToString seconds @ '' second'' @ (if seconds \<noteq> 1 then ''s'' else '''')]
                          else [])
            in join '', '' parts3
      | _ \<Rightarrow> ''0 minutes'')"

definition formatTimestamp :: "jsnum \<Rightarrow> string" where
  "formatTimestamp totalSeconds =
     (case totalSeconds of
        Num x \<Rightarrow>
          if x < 0 then ''0:00''
          else
            let hours = \<lfloor>x / 3600\<rfloor>;
                minutes = \<lfloor>jsRemainder x 3600 / 60\<rfloor>;
                secs = \<lfloor>jsRemainder x 60\<rfloor>
            in if 0 < hours
               then intToString hours @ '':'' @ padStart 2 CHR ''0'' (intToString minutes)
                      @ '':'' @ padStart 2 CHR ''0'' (intToString secs)
               else intToString minutes @ '':'' @ padStart 2 CHR ''0'' (intToString secs)
      | _ \<Rightarrow> ''0:00'')"

section \<open>The data model (utils/types)\<close>

datatype videoType = Video | Short

text \<open>
  The message a page sends: the fields of the interface \<open>DurationResponse\<close>, and the
  \<open>isLiveStream\<close> flag that the extractor's object literals carry as well. It has no
  \<open>playbackRate\<close> property.
\<close>

record DurationResponse =
  durationSeconds :: jsnum
  currentTimeSeconds :: jsnum
  isLiveStream :: bool
  isLoading :: bool
  videoType :: videoType
  url :: string
  title :: string

text \<open>
  A record of the coordinator's mapping: the fields of the interface
  \<open>TabDurationInfo\<close>, and the two properties the code reads beyond the interface,
  \<open>playbackRate\<close> (read by \<open>calculateTotalRemaining\<close>) and \<open>isLiveStream\<close> (read by
  the detail view). Both may be absent (\<open>undefined\<close>), which is \<open>None\<close>.
\<close>

record TabDurationInfo =
  tabId :: jsnum
  url :: string
  title :: string
  durationSeconds :: jsnum
  currentTimeSeconds :: jsnum
  playbackRate :: "jsnum option"
  isLoading :: bool
  videoType :: videoType
  isLiveStream :: "bool option"

record PopupData =
  tabs :: "TabDurationInfo list"
  totalDurationSeconds :: jsnum
  totalFormatted :: string
  displayEnabled :: bool

section \<open>The JavaScript \<open>Map\<close> keyed by tab id\<close>

text \<open>
  A \<open>Map\<close> iterates in insertion order, so it is a list of key-value pairs: \<open>set\<close> on a
  key that is present replaces the value in place, on a new key it appends; \<open>delete\<close>
  removes the entry.
\<close>

type_synonym 'v jsmap = "(jsnum \<times> 'v) list"

fun mapSet :: "jsnum \<Rightarrow> 'v \<Rightarrow> 'v jsmap \<Rightarrow> 'v jsmap" where
  "mapSet k v [] = [(k, v)]"
| "mapSet k v ((k', v') # m) = (if k' = k then (k, v) # m else (k', v') # mapSet k v m)"

definition mapDelete :: "jsnum \<Rightarrow> 'v jsmap \<Rightarrow> 'v jsmap" where
  "mapDelete k m = filter (\<lambda>(k', v). k' \<noteq> k) m"

definition mapGet :: "'v jsmap \<Rightarrow> jsnum \<Rightarrow> 'v option" where
  "mapGet m k = map_of m k"

definition mapHas :: "'v jsmap \<Rightarrow> jsnum \<Rightarrow> bool" where
  "mapHas m k = (mapGet m k \<noteq> None)"

definition mapKeys :: "'v jsmap \<Rightarrow> jsnum list" where
  "mapKeys m = map fst m"

definition mapValues :: "'v jsmap \<Rightarrow> 'v list" where
  "mapValues m = map snd m"

section \<open>The coordinator (entrypoints/background.ts)\<close>

subsection \<open>Tracked URLs and the aggregate\<close>

definition isYouTubeVideoUrl :: "string option \<Rightarrow> bool" where
  "isYouTubeVideoUrl u =
     (case u of
        None \<Rightarrow> False
      | Some s \<Rightarrow>
          if s = [] then False
          else startsWith s ''https://www.youtube.com/watch''
             \<or> startsWith s ''https://www.youtube.com/shorts/'')"

text \<open>The divisor \<open>info.playbackRate || 1\<close>.\<close>

definition rateOrOne :: "jsnum option \<Rightarrow> jsnum" where
  "rateOrOne r = (case r of None \<Rightarrow> Num 1 | Some v \<Rightarrow> if num_truthy v then v else Num 1)"

text \<open>The loop of \<open>calculateTotalRemaining\<close> over \<open>tabDurations.values()\<close>, with the
  running \<open>totalRemaining\<close>.\<close>

fun calculateTotalRemaining_loop :: "jsnum \<Rightarrow> TabDurationInfo list \<Rightarrow> jsnum" where
  "calculateTotalRemaining_loop totalRemaining [] = totalRemaining"
| "calculateTotalRemaining_loop totalRemaining (info # rest) =
     (if \<not> isLoading info then
        (let remaining = num_div (num_sub (durationSeconds info) (currentTimeSeconds info))
                                 (rateOrOne (playbackRate info))
         in if isFinite remaining \<and> num_gt remaining (Num 0)
            then calculateTotalRemaining_loop (num_add totalRemaining remaining) rest
            else calculateTotalRemaining_loop totalRemaining rest)
      else calculateTotalRemaining_loop totalRemaining rest)"

definition calculateTotalRemaining :: "TabDurationInfo jsmap \<Rightarrow> jsnum" where
  "calculateTotalRemaining m = calculateTotalRemaining_loop (Num 0) (mapValues m)"

subsection \<open>State: the module's variables, the host's timers, badge and storage\<close>

text \<open>
  A timer callback is either the persistence write or a delayed pull of a tab (with the
  retries it has left). A pending timer is its id, its deadline on the clock \<open>now\<close> (in
  milliseconds) and its callback.
\<close>

datatype callback = PersistCallback | PullCallback jsnum nat

text \<open>An item of the persisted array: usable when it is an object whose \<open>tabId\<close> is a
  number, which is all that rehydration checks.\<close>

datatype cached = Unusable | Cached TabDurationInfo

text \<open>The calls of \<open>browser.storage.local.set\<close>, in order.\<close>

datatype setCall = SetCache "TabDurationInfo list" | SetDisplayEnabled bool

text \<open>Durable storage: \<open>storedDisplayEnabled\<close> is \<open>None\<close> unless a boolean is stored,
  \<open>tabDurationsCache\<close> is \<open>None\<close> unless an array is stored.\<close>

record storage =
  storedDisplayEnabled :: "bool option"
  tabDurationsCache :: "cached list option"

record state =
  tabDurations :: "TabDurationInfo jsmap"
  displayEnabled :: bool
  persistTimeout :: "nat option"
  timers :: "(nat \<times> nat \<times> callback) list"
  nextTimerId :: nat
  now :: nat
  badgeText :: string
  badgeBackgroundColor :: "string option"
  storageLocal :: storage
  setCalls :: "setCall list"

text \<open>\<open>setTimeout(cb, delay)\<close>; the id it returns is \<open>nextTimerId\<close> of the state before.\<close>

definition setTimeout :: "callback \<Rightarrow> nat \<Rightarrow> state \<Rightarrow> state" where
  "setTimeout cb delay s =
     s\<lparr>timers := timers s @ [(nextTimerId s, now s + delay, cb)],
       nextTimerId := Suc (nextTimerId s)\<rparr>"

definition schedulePersist :: "state \<Rightarrow> state" where
  "schedulePersist s =
     (if persistTimeout s \<noteq> None then s
      else (setTimeout PersistCallback 2000 s)\<lparr>persistTimeout := Some (nextTimerId s)\<rparr>)"

text \<open>The callback that \<open>schedulePersist\<close> hands to \<open>setTimeout\<close>.\<close>

definition persistCallback :: "state \<Rightarrow> state" where
  "persistCallback s =
     (let data = mapValues (tabDurations s)
      in s\<lparr>persistTimeout := None,
           storageLocal := (storageLocal s)\<lparr>tabDurationsCache := Some (map Cached data)\<rparr>,
           setCalls := setCalls s @ [SetCache data]\<rparr>)"

definition updateBadge :: "state \<Rightarrow> state" where
  "updateBadge s =
     (let totalSeconds = calculateTotalRemaining (tabDurations s)
      in if \<not> state.displayEnabled s then schedulePersist (s\<lparr>badgeText := ''''\<rparr>)
         else
           (let text = (if num_gt totalSeconds (Num 0) then formatDuration totalSeconds else '''')
            in schedulePersist (s\<lparr>badgeText := text, badgeBackgroundColor := Some ''#CC0000''\<rparr>)))"

subsection \<open>Pulls\<close>

text \<open>
  \<open>requestDurationFromTab\<close> awaits the transport. The model is its continuation: what it
  does to the state once the transport has answered, with the response or with a
  rejection (\<open>Inl\<close>).
\<close>

datatype jserror = Exception

definition requestDurationFromTab ::
  "jsnum \<Rightarrow> nat \<Rightarrow> jserror + DurationResponse \<Rightarrow> state \<Rightarrow> state" where
  "requestDurationFromTab tid retries outcome s =
     (case outcome of
        Inl _ \<Rightarrow> s
      | Inr response \<Rightarrow>
          (let s1 = s\<lparr>tabDurations :=
                      mapSet tid
                        \<lparr>tabId = tid,
                         url = DurationResponse.url response,
                         title = DurationResponse.title response,
                         durationSeconds = DurationResponse.durationSeconds response,
                         currentTimeSeconds = DurationResponse.currentTimeSeconds response,
                         playbackRate = None,
                         isLoading = DurationResponse.isLoading response,
                         videoType = DurationResponse.videoType response,
                         isLiveStream = None\<rparr>
                        (tabDurations s)\<rparr>;
               s2 = updateBadge s1
           in if DurationResponse.isLoading response \<and> 0 < retries
              then setTimeout (PullCallback tid (retries - 1)) 3000 s2
              else s2))"

text \<open>A timer that is due runs once and leaves the queue. A delayed pull sends its
  request; what the answer does is \<open>requestDurationFromTab\<close>.\<close>

definition runCallback :: "callback \<Rightarrow> state \<Rightarrow> state" where
  "runCallback cb s = (case cb of PersistCallback \<Rightarrow> persistCallback s | PullCallback tid retries \<Rightarrow> s)"

definition fireTimer :: "nat \<Rightarrow> state \<Rightarrow> state" where
  "fireTimer i s =
     (case find (\<lambda>(j, deadline, cb). j = i \<and> deadline \<le> now s) (timers s) of
        None \<Rightarrow> s
      | Some (j, deadline, cb) \<Rightarrow>
          runCallback cb (s\<lparr>timers := filter (\<lambda>(j', d', cb'). j' \<noteq> i) (timers s)\<rparr>))"

subsection \<open>Bulk reconciliation\<close>

record browserTab =
  tab_id :: "jsnum option"
  discarded :: bool

text \<open>\<open>scanAllYouTubeTabs\<close> after the tab query: first the records of tabs that are gone
  are deleted, then the open, non-discarded tabs are pulled, then the badge is updated.\<close>

definition scanAllYouTubeTabs_prune :: "browserTab list \<Rightarrow> state \<Rightarrow> state" where
  "scanAllYouTubeTabs_prune open_tabs s =
     (let activeTabIds = List.map_filter tab_id open_tabs
      in s\<lparr>tabDurations := filter (\<lambda>(k, v). k \<in> set activeTabIds) (tabDurations s)\<rparr>)"

definition scanAllYouTubeTabs_pulls :: "browserTab list \<Rightarrow> jsnum list" where
  "scanAllYouTubeTabs_pulls open_tabs =
     List.map_filter (\<lambda>t. if \<not> discarded t then tab_id t else None) open_tabs"

subsection \<open>Start-up\<close>

fun restoreCache :: "cached list \<Rightarrow> TabDurationInfo jsmap \<Rightarrow> TabDurationInfo jsmap" where
  "restoreCache [] m = m"
| "restoreCache (Unusable # rest) m = restoreCache rest m"
| "restoreCache (Cached info # rest) m = restoreCache rest (mapSet (tabId info) info m)"

text \<open>The callback of \<open>browser.storage.local.get\<close>, up to its first await.\<close>

definition onStorageLoaded :: "storage \<Rightarrow> state \<Rightarrow> state" where
  "onStorageLoaded result s =
     (let s1 = (case storedDisplayEnabled result of
                  Some b \<Rightarrow> s\<lparr>state.displayEnabled := b\<rparr>
                | None \<Rightarrow> s);
          s2 = (case tabDurationsCache result of
                  Some cache \<Rightarrow> s1\<lparr>tabDurations := restoreCache cache (tabDurations s1)\<rparr>
                | None \<Rightarrow> s1)
      in updateBadge s2)"

text \<open>The service worker starts with fresh module variables and no timers; the clock,
  the badge and the storage are the browser's and stay.\<close>

definition defineBackground :: "state \<Rightarrow> state" where
  "defineBackground s =
     s\<lparr>tabDurations := [], state.displayEnabled := True, persistTimeout := None, timers := []\<rparr>"

definition installed :: state where
  "installed =
     \<lparr>tabDurations = [], state.displayEnabled = True, persistTimeout = None, timers = [],
      nextTimerId = 0, now = 0, badgeText = '''', badgeBackgroundColor = None,
      storageLocal = \<lparr>storedDisplayEnabled = None, tabDurationsCache = None\<rparr>,
      setCalls = []\<rparr>"

subsection \<open>Tab event listeners\<close>

definition onRemoved :: "jsnum \<Rightarrow> state \<Rightarrow> state" where
  "onRemoved tid s =
     (if mapHas (tabDurations s) tid
      then updateBadge (s\<lparr>tabDurations := mapDelete tid (tabDurations s)\<rparr>)
      else s)"

definition onUpdated :: "jsnum \<Rightarrow> string option \<Rightarrow> string option \<Rightarrow> state \<Rightarrow> state" where
  "onUpdated tid status tab_url s =
     (if status = Some ''complete'' \<and> tab_url \<noteq> None \<and> tab_url \<noteq> Some [] then
        (if isYouTubeVideoUrl tab_url then setTimeout (PullCallback tid 2) 1000 s
         else if mapHas (tabDurations s) tid
         then updateBadge (s\<lparr>tabDurations := mapDelete tid (tabDurations s)\<rparr>)
         else s)
      else s)"

definition onHistoryStateUpdated :: "jsnum \<Rightarrow> string \<Rightarrow> jsnum \<Rightarrow> state \<Rightarrow> state" where
  "onHistoryStateUpdated frameId details_url tid s =
     (if frameId \<noteq> Num 0 then s
      else if isYouTubeVideoUrl (Some details_url) then setTimeout (PullCallback tid 2) 1500 s
      else if mapHas (tabDurations s) tid
      then updateBadge (s\<lparr>tabDurations := mapDelete tid (tabDurations s)\<rparr>)
      else s)"

subsection \<open>Message handlers\<close>

text \<open>\<open>onMessage('reportDuration')\<close>: the sender's tab id (absent when the sender is not a
  tab) and the message data.\<close>

definition onReportDuration :: "jsnum option \<Rightarrow> DurationResponse \<Rightarrow> state \<Rightarrow> state" where
  "onReportDuration sender_tab_id data s =
     (case sender_tab_id of
        None \<Rightarrow> s
      | Some tid \<Rightarrow>
          if \<not> isYouTubeVideoUrl (Some (DurationResponse.url data))
          then updateBadge (s\<lparr>tabDurations := mapDelete tid (tabDurations s)\<rparr>)
          else updateBadge
                 (s\<lparr>tabDurations :=
                      mapSet tid
                        \<lparr>tabId = tid,
                         url = DurationResponse.url data,
                         title = DurationResponse.title data,
                         durationSeconds = DurationResponse.durationSeconds data,
                         currentTimeSeconds = DurationResponse.currentTimeSeconds data,
                         playbackRate = None,
                         isLoading = DurationResponse.isLoading data,
                         videoType = DurationResponse.videoType data,
                         isLiveStream = None\<rparr>
                        (tabDurations s)\<rparr>))"

definition getPopupData :: "state \<Rightarrow> PopupData" where
  "getPopupData s =
     (let tabs = mapValues (tabDurations s);
          totalRemaining = calculateTotalRemaining (tabDurations s)
      in \<lparr>tabs = tabs,
          totalDurationSeconds = totalRemaining,
          totalFormatted = formatDuration totalRemaining,
          displayEnabled = state.displayEnabled s\<rparr>)"

text \<open>\<open>onMessage('toggleDisplay')\<close>: the new state and the value returned.\<close>

definition toggleDisplay :: "state \<Rightarrow> state \<times> bool" where
  "toggleDisplay s =
     (let s1 = s\<lparr>state.displayEnabled := \<not> state.displayEnabled s\<rparr>;
          s2 = s1\<lparr>storageLocal := (storageLocal s1)\<lparr>storedDisplayEnabled := Some (state.displayEnabled s1)\<rparr>,
                  setCalls := setCalls s1 @ [SetDisplayEnabled (state.displayEnabled s1)]\<rparr>;
          s3 = updateBadge s2
      in (s3, state.displayEnabled s3))"

subsection \<open>Reachable coordinator states\<close>

text \<open>
  The coordinator starts at installation with empty storage. From then on any listener,
  message handler or timer may run, a pull may be answered or rejected, the clock may
  advance, and the service worker may restart and load what is stored.
\<close>

inductive reachable :: "state \<Rightarrow> bool" where
  install: "reachable installed"
| restart: "reachable s \<Longrightarrow> reachable (defineBackground s)"
| storageLoaded: "reachable s \<Longrightarrow> reachable (onStorageLoaded (storageLocal s) s)"
| tabRemoved: "reachable s \<Longrightarrow> reachable (onRemoved tid s)"
| tabUpdated: "reachable s \<Longrightarrow> reachable (onUpdated tid status tab_url s)"
| historyStateUpdated: "reachable s \<Longrightarrow> reachable (onHistoryStateUpdated frameId details_url tid s)"
| reportDuration: "reachable s \<Longrightarrow> reachable (onReportDuration sender_tab_id data s)"
| pullAnswered: "reachable s \<Longrightarrow> reachable (requestDurationFromTab tid retries outcome s)"
| scanPruned: "reachable s \<Longrightarrow> reachable (scanAllYouTubeTabs_prune open_tabs s)"
| scanDone: "reachable s \<Longrightarrow> reachable (updateBadge s)"
| toggled: "reachable s \<Longrightarrow> reachable (fst (toggleDisplay s))"
| timerFired: "reachable s \<Longrightarrow> reachable (fireTimer i s)"
| clockAdvanced: "reachable s \<Longrightarrow> reachable (s\<lparr>now := now s + d\<rparr>)"

section \<open>The per-page extractor (the content script)\<close>

subsection \<open>The page as the extractor sees it\<close>

text \<open>
  A media element, with the three properties the extractor reads.
\<close>

record videoElement =
  duration :: jsnum
  currentTime :: jsnum
  paused :: bool

text \<open>
  A value of the page's own data (\<open>lengthSeconds\<close>), of unknown type: the extractor only
  tests its truthiness and converts it with \<open>Number\<close>, so it is modelled by what those
  two give.
\<close>

record hostValue =
  toBoolean :: bool
  toNumber :: jsnum

text \<open>
  The page state: the address and title, the result of each DOM query of
  \<open>getMainVideo\<close> and of the title fallbacks, the text of each script element, and the
  reads of the page's data objects. Such a read goes through objects the page controls
  and may throw (\<open>Inl\<close>); a property that is missing reads as a falsy value.
\<close>

record page =
  href :: string
  documentTitle :: string
  activeRenderer :: "videoElement option option"
  reelVideos :: "videoElement list"
  moviePlayerVideo :: "videoElement option"
  html5MainVideo :: "videoElement option"
  anyVideo :: "videoElement option"
  watchFlexyLengthSeconds :: "jserror + hostValue"
  watchFlexyIsLive :: "jserror + bool"
  initialLengthSeconds :: "jserror + hostValue"
  initialIsLive :: "jserror + bool"
  scripts :: "string option list"
  watchMetadataHeading :: "string option"
  infoHeading :: "string option"
  activeReelHeading :: "string option"

subsection \<open>Resolving the media element\<close>

definition getMainVideo :: "page \<Rightarrow> videoElement option" where
  "getMainVideo p =
     (let isShort = stringIncludes (href p) ''/shorts/'';
          byContainer =
            (case moviePlayerVideo p of
               Some v \<Rightarrow> Some v
             | None \<Rightarrow> (case html5MainVideo p of Some v \<Rightarrow> Some v | None \<Rightarrow> anyVideo p))
      in if isShort then
           (case (case activeRenderer p of Some r \<Rightarrow> r | None \<Rightarrow> None) of
              Some v \<Rightarrow> Some v
            | None \<Rightarrow>
                (case find (\<lambda>v. \<not> paused v \<and> num_gt (currentTime v) (Num 0)) (reelVideos p) of
                   Some v \<Rightarrow> Some v
                 | None \<Rightarrow> (case reelVideos p of v # vs \<Rightarrow> Some v | [] \<Rightarrow> byContainer)))
         else byContainer)"

subsection \<open>Duration from the page's data\<close>

text \<open>The body of the first two \<open>try\<close> blocks of \<open>getPageDataDuration\<close>: \<open>None\<close> when the
  block falls through or its read throws.\<close>

definition fromPageData :: "jserror + hostValue \<Rightarrow> jsnum option" where
  "fromPageData r =
     (case r of
        Inl _ \<Rightarrow> None
      | Inr lengthSeconds \<Rightarrow>
          if toBoolean lengthSeconds then
            (let parsed = toNumber lengthSeconds
             in if isFinite parsed \<and> num_gt parsed (Num 0) then Some parsed else None)
          else None)"

text \<open>The regular expression \<open>"lengthSeconds"\s*:\s*"(\d+)"\<close>: a match that starts at
  the head of the text, and the first match anywhere; the result is the captured digits.\<close>

definition lengthSecondsKey :: string where
  "lengthSecondsKey = CHR 0x22 # ''lengthSeconds'' @ [CHR 0x22]"

definition matchLengthSecondsHere :: "string \<Rightarrow> string option" where
  "matchLengthSecondsHere s =
     (if startsWith s lengthSecondsKey then
        (case dropWhile isSpace (drop (length lengthSecondsKey) s) of
           [] \<Rightarrow> None
         | c1 # r1 \<Rightarrow>
             if c1 = CHR '':'' then
               (case dropWhile isSpace r1 of
                  [] \<Rightarrow> None
                | c2 # r2 \<Rightarrow>
                    if c2 = CHR 0x22 \<and> takeWhile isDigit r2 \<noteq> []
                       \<and> startsWith (dropWhile isDigit r2) [CHR 0x22]
                    then Some (takeWhile isDigit r2)
                    else None)
             else None)
      else None)"

fun matchLengthSeconds :: "string \<Rightarrow> string option" where
  "matchLengthSeconds [] = None"
| "matchLengthSeconds (c # cs) =
     (case matchLengthSecondsHere (c # cs) of
        Some ds \<Rightarrow> Some ds
      | None \<Rightarrow> matchLengthSeconds cs)"

text \<open>The loop over the script elements in the third \<open>try\<close> block.\<close>

fun fromScripts :: "string option list \<Rightarrow> jsnum option" where
  "fromScripts [] = None"
| "fromScripts (None # rest) = fromScripts rest"
| "fromScripts (Some text # rest) =
     (if text = [] \<or> \<not> stringIncludes text ''lengthSeconds'' then fromScripts rest
      else
        (case matchLengthSeconds text of
           None \<Rightarrow> fromScripts rest
         | Some ds \<Rightarrow>
             (let parsed = Num (real (digitsToNat ds))
              in if isFinite parsed \<and> num_gt parsed (Num 0) then Some parsed
                 else fromScripts rest)))"

definition getPageDataDuration :: "page \<Rightarrow> jsnum option" where
  "getPageDataDuration p =
     (case fromPageData (watchFlexyLengthSeconds p) of
        Some d \<Rightarrow> Some d
      | None \<Rightarrow>
          (case fromPageData (initialLengthSeconds p) of
             Some d \<Rightarrow> Some d
           | None \<Rightarrow> fromScripts (scripts p)))"

subsection \<open>Live streams, and the extraction itself\<close>

definition isLiveStream_page :: "page \<Rightarrow> bool" where
  "isLiveStream_page p =
     (if watchFlexyIsLive p = Inr True then True
      else if initialIsLive p = Inr True then True
      else
        (case getMainVideo p of
           Some v \<Rightarrow> duration v = PosInfinity
         | None \<Rightarrow> False))"

text \<open>
  \<open>extractDuration\<close> has three \<open>return\<close> statements and no \<open>throw\<close>; whatever the reads of
  the page's data throw is caught inside \<open>getPageDataDuration\<close> and \<open>isLiveStream\<close>. The
  result is \<open>Inr\<close> of the object returned; \<open>Inl\<close> would be an exception that leaves the
  function.
\<close>

definition extractDuration :: "page \<Rightarrow> jserror + DurationResponse" where
  "extractDuration p =
     (let v = getMainVideo p;
          u = href p;
          title0 = trim (replaceFirst (documentTitle p) '' - YouTube'' '''');
          title1 =
            (if title0 = ''YouTube'' \<or> title0 = '''' then
               (let videoTitle =
                      (case watchMetadataHeading p of
                         Some t \<Rightarrow> Some (trim t)
                       | None \<Rightarrow>
                           (case infoHeading p of
                              Some t \<Rightarrow> Some (trim t)
                            | None \<Rightarrow> map_option trim (activeReelHeading p)))
                in case videoTitle of
                     Some t \<Rightarrow> if t \<noteq> [] then t else title0
                   | None \<Rightarrow> title0)
             else title0);
          isShort = stringIncludes u ''/shorts/'';
          live = isLiveStream_page p;
          time = (case v of Some e \<Rightarrow> currentTime e | None \<Rightarrow> Num 0);
          kind = (if isShort then Short else Video)
      in case (case v of
                 Some e \<Rightarrow> if isFinite (duration e) \<and> num_gt (duration e) (Num 0)
                           then Some (duration e) else None
               | None \<Rightarrow> None) of
           Some d \<Rightarrow>
             Inr \<lparr>DurationResponse.durationSeconds = d,
                  DurationResponse.currentTimeSeconds = time,
                  DurationResponse.isLiveStream = live,
                  DurationResponse.isLoading = False,
                  DurationResponse.videoType = kind,
                  DurationResponse.url = u,
                  DurationResponse.title = title1\<rparr>
         | None \<Rightarrow>
             (case getPageDataDuration p of
                Some pageDataDuration \<Rightarrow>
                  Inr \<lparr>DurationResponse.durationSeconds = pageDataDuration,
                       DurationResponse.currentTimeSeconds = time,
                       DurationResponse.isLiveStream = live,
                       DurationResponse.isLoading = False,
                       DurationResponse.videoType = kind,
                       DurationResponse.url = u,
                       DurationResponse.title = title1\<rparr>
              | None \<Rightarrow>
                  Inr \<lparr>DurationResponse.durationSeconds = Num 0,
                       DurationResponse.currentTimeSeconds = Num 0,
                       DurationResponse.isLiveStream = live,
                       DurationResponse.isLoading = True,
                       DurationResponse.videoType = kind,
                       DurationResponse.url = u,
                       DurationResponse.title = title1\<rparr>))"

section \<open>The detail view (the popup)\<close>

text \<open>The text that \<open>createTabRow\<close> puts in the duration cell of a record's row.\<close>

definition createTabRow_duration :: "TabDurationInfo \<Rightarrow> string" where
  "createTabRow_duration tab =
     (if isLiveStream tab = Some True then ''LIVE''
      else if isLoading tab then ''Loading...''
      else
        (let remaining = num_max (Num 0) (num_sub (durationSeconds tab) (currentTimeSeconds tab))
         in formatTimestamp remaining @ '' left''))"

section \<open>The aggregate as the specification words it\<close>

text \<open>
  The specification's formula for one record: \<open>max(0, durationSeconds -
  currentTimeSeconds) / playbackRate\<close>, a missing or zero rate counting as \<open>1\<close>, and a
  result that is not finite or is negative contributing nothing.
\<close>

definition spec_rate :: "jsnum option \<Rightarrow> jsnum" where
  "spec_rate r = (case r of None \<Rightarrow> Num 1 | Some v \<Rightarrow> if v = Num 0 then Num 1 else v)"

definition spec_contribution :: "TabDurationInfo \<Rightarrow> real" where
  "spec_contribution info =
     (case num_div (num_max (Num 0) (num_sub (durationSeconds info) (currentTimeSeconds info)))
                   (spec_rate (playbackRate info)) of
        Num x \<Rightarrow> if x < 0 then 0 else x
      | _ \<Rightarrow> 0)"

text \<open>The sum over exactly the records with \<open>isLoading = false\<close>.\<close>

definition spec_totalRemaining :: "TabDurationInfo jsmap \<Rightarrow> jsnum" where
  "spec_totalRemaining m =
     Num (sum_list (map spec_contribution (filter (\<lambda>info. \<not> isLoading info) (mapValues m))))"

section \<open>Notions used to state the properties\<close>

text \<open>
  What one record adds to the total in \<open>calculateTotalRemaining\<close>: the quotient
  \<open>(durationSeconds - currentTimeSeconds) / (playbackRate || 1)\<close> when it is finite and
  positive, and nothing otherwise.
\<close>

definition remainingOf :: "TabDurationInfo \<Rightarrow> real" where
  "remainingOf info =
     (case num_div (num_sub (durationSeconds info) (currentTimeSeconds info))
                   (rateOrOne (playbackRate info)) of
        Num x \<Rightarrow> if 0 < x then x else 0
      | _ \<Rightarrow> 0)"

text \<open>A playback rate that is missing, zero or positive.\<close>

definition rateMissingZeroOrPositive :: "jsnum option \<Rightarrow> bool" where
  "rateMissingZeroOrPositive r =
     (case r of None \<Rightarrow> True | Some (Num x) \<Rightarrow> 0 \<le> x | Some PosInfinity \<Rightarrow> True | Some _ \<Rightarrow> False)"

section \<open>Sample records, pages and messages\<close>

definition sampleTabs :: "TabDurationInfo jsmap" where
  "sampleTabs =
     [(Num 1, \<lparr>tabId = Num 1, url = ''https://www.youtube.com/watch?v=a'', title = ''a'',
               durationSeconds = Num 1800, currentTimeSeconds = Num 600, playbackRate = Some (Num 2),
               isLoading = False, videoType = Video, isLiveStream = None\<rparr>),
      (Num 2, \<lparr>tabId = Num 2, url = ''https://www.youtube.com/watch?v=b'', title = ''b'',
               durationSeconds = Num 600, currentTimeSeconds = Num 0, playbackRate = None,
               isLoading = False, videoType = Video, isLiveStream = None\<rparr>),
      (Num 3, \<lparr>tabId = Num 3, url = ''https://www.youtube.com/shorts/c'', title = ''c'',
               durationSeconds = Num 60, currentTimeSeconds = Num 0, playbackRate = Some (Num 0),
               isLoading = True, videoType = Short, isLiveStream = None\<rparr>)]"

section \<open>Invariants of the record mapping\<close>

text \<open>Every entry is keyed by the \<open>tabId\<close> of its record.\<close>

definition keysAreTabIds :: "TabDurationInfo jsmap \<Rightarrow> bool" where
  "keysAreTabIds m = (\<forall>(k, info) \<in> set m. tabId info = k)"

text \<open>No record carries a playback rate, in the mapping and in the persisted array.\<close>

definition noPlaybackRate :: "TabDurationInfo jsmap \<Rightarrow> bool" where
  "noPlaybackRate m = (\<forall>(k, info) \<in> set m. playbackRate info = None)"

definition cacheNoPlaybackRate :: "storage \<Rightarrow> bool" where
  "cacheNoPlaybackRate st =
     (case tabDurationsCache st of
        None \<Rightarrow> True
      | Some cache \<Rightarrow>
          (\<forall>c \<in> set cache. case c of Unusable \<Rightarrow> True | Cached info \<Rightarrow> playbackRate info = None))"

text \<open>The difference \<open>durationSeconds - currentTimeSeconds\<close> of a record when it is finite
  and positive, and zero otherwise.\<close>

definition positiveDifference :: "TabDurationInfo \<Rightarrow> real" where
  "positiveDifference info =
     (case num_sub (durationSeconds info) (currentTimeSeconds info) of
        Num x \<Rightarrow> if 0 < x then x else 0
      | _ \<Rightarrow> 0)"

text \<open>A report from a watch page, 600 of 1800 seconds played, and the coordinator after
  installation, a push of that report from tab 7 and a push from tab 8 of a page that is
  still loading.\<close>

definition sampleReport :: DurationResponse where
  "sampleReport =
     \<lparr>DurationResponse.durationSeconds = Num 1800,
      DurationResponse.currentTimeSeconds = Num 600,
      DurationResponse.isLiveStream = False,
      DurationResponse.isLoading = False,
      DurationResponse.videoType = Video,
      DurationResponse.url = ''https://www.youtube.com/watch?v=a'',
      DurationResponse.title = ''a''\<rparr>"

definition loadingReport :: DurationResponse where
  "loadingReport =
     \<lparr>DurationResponse.durationSeconds = Num 0,
      DurationResponse.currentTimeSeconds = Num 0,
      DurationResponse.isLiveStream = False,
      DurationResponse.isLoading = True,
      DurationResponse.videoType = Short,
      DurationResponse.url = ''https://www.youtube.com/shorts/b'',
      DurationResponse.title = ''b''\<rparr>"

definition sampleState :: state where
  "sampleState =
     onReportDuration (Some (Num 8)) loadingReport
       (onReportDuration (Some (Num 7)) sampleReport installed)"

definition rateInv :: "state \<Rightarrow> bool" where
  "rateInv s = (noPlaybackRate (tabDurations s) \<and> cacheNoPlaybackRate (storageLocal s))"

section \<open>Notions used to state the throttling of persistence\<close>

text \<open>The pending timers whose callback is the persistence write.\<close>

definition persistTimers :: "state \<Rightarrow> (nat \<times> nat \<times> callback) list" where
  "persistTimers s = filter (\<lambda>(i, deadline, cb). cb = PersistCallback) (timers s)"

text \<open>
  A mutation of the record mapping as the handlers perform it: some time \<open>d\<close> after the
  previous event the mapping is changed (by a \<open>set\<close> or a \<open>delete\<close>, here any function
  \<open>f\<close>), and \<open>updateBadge\<close> runs in the same turn, which calls \<open>schedulePersist\<close>.
\<close>

definition mutate ::
  "nat \<times> (TabDurationInfo jsmap \<Rightarrow> TabDurationInfo jsmap) \<Rightarrow> state \<Rightarrow> state" where
  "mutate df s = updateBadge (s\<lparr>now := now s + fst df, tabDurations := snd df (tabDurations s)\<rparr>)"

definition mutations ::
  "(nat \<times> (TabDurationInfo jsmap \<Rightarrow> TabDurationInfo jsmap)) list \<Rightarrow> state \<Rightarrow> state" where
  "mutations ms s = foldl (\<lambda>s' df. mutate df s') s ms"

text \<open>Timer ids are distinct and below \<open>nextTimerId\<close>, and \<open>persistTimeout\<close> holds the id
  of the one pending persistence timer, or \<open>null\<close> when there is none.\<close>

definition timersInv :: "state \<Rightarrow> bool" where
  "timersInv s =
     (distinct (map fst (timers s))
      \<and> (\<forall>(i, deadline, cb) \<in> set (timers s). i < nextTimerId s)
      \<and> (case persistTimeout s of
            None \<Rightarrow> persistTimers s = []
          | Some i \<Rightarrow> (\<exists>deadline. persistTimers s = [(i, deadline, PersistCallback)])))"

text \<open>A push from a page that is not a video page, and three mutations: tab 7 is stored,
  500 ms later tab 8 is stored, 700 ms later tab 7 is deleted.\<close>

definition homeReport :: DurationResponse where
  "homeReport = sampleReport\<lparr>DurationResponse.url := ''https://www.youtube.com/''\<rparr>"

definition storeTab7 :: "TabDurationInfo jsmap \<Rightarrow> TabDurationInfo jsmap" where
  "storeTab7 =
     mapSet (Num 7)
       \<lparr>tabId = Num 7, url = ''https://www.youtube.com/watch?v=a'', title = ''a'',
        durationSeconds = Num 1800, currentTimeSeconds = Num 600, playbackRate = None,
        isLoading = False, videoType = Video, isLiveStream = None\<rparr>"

definition laterMutations ::
  "(nat \<times> (TabDurationInfo jsmap \<Rightarrow> TabDurationInfo jsmap)) list" where
  "laterMutations =
     [(500, mapSet (Num 8)
            \<lparr>tabId = Num 8, url = ''https://www.youtube.com/shorts/b'', title = ''b'',
             durationSeconds = Num 30, currentTimeSeconds = Num 0, playbackRate = None,
             isLoading = False, videoType = Short, isLiveStream = None\<rparr>),
      (700, mapDelete (Num 7))]"

definition sampleMutations ::
  "(nat \<times> (TabDurationInfo jsmap \<Rightarrow> TabDurationInfo jsmap)) list" where
  "sampleMutations = (0, storeTab7) # laterMutations"

text \<open>
  Three pages. A watch page whose media element has loaded (212.5 s, at 12 s) and whose
  data objects give 212 s. A page with no media element, whose data objects throw when
  read and whose one script does not mention a length. A live page whose player reports a
  finite duration (3600 s, at 600 s) and whose data objects mark it live, with
  \<open>lengthSeconds\<close> the string \<open>"0"\<close>.
\<close>

definition watchPage :: page where
  "watchPage =
     \<lparr>href = ''https://www.youtube.com/watch?v=a'',
      documentTitle = ''A talk - YouTube'',
      activeRenderer = None,
      reelVideos = [],
      moviePlayerVideo = Some \<lparr>duration = Num (425 / 2), currentTime = Num 12, paused = False\<rparr>,
      html5MainVideo = None,
      anyVideo = None,
      watchFlexyLengthSeconds = Inr \<lparr>toBoolean = True, toNumber = Num 212\<rparr>,
      watchFlexyIsLive = Inr False,
      initialLengthSeconds = Inr \<lparr>toBoolean = True, toNumber = Num 212\<rparr>,
      initialIsLive = Inr False,
      scripts = [],
      watchMetadataHeading = None,
      infoHeading = None,
      activeReelHeading = None\<rparr>"

definition blankPage :: page where
  "blankPage =
     \<lparr>href = ''https://www.youtube.com/watch?v=b'',
      documentTitle = ''YouTube'',
      activeRenderer = None,
      reelVideos = [],
      moviePlayerVideo = None,
      html5MainVideo = None,
      anyVideo = None,
      watchFlexyLengthSeconds = Inl Exception,
      watchFlexyIsLive = Inl Exception,
      initialLengthSeconds = Inl Exception,
      initialIsLive = Inl Exception,
      scripts = [None, Some ''var x = 1;''],
      watchMetadataHeading = None,
      infoHeading = None,
      activeReelHeading = None\<rparr>"

definition livePage :: page where
  "livePage =
     \<lparr>href = ''https://www.youtube.com/watch?v=live'',
      documentTitle = ''News - YouTube'',
      activeRenderer = None,
      reelVideos = [],
      moviePlayerVideo = Some \<lparr>duration = Num 3600, currentTime = Num 600, paused = False\<rparr>,
      html5MainVideo = None,
      anyVideo = None,
      watchFlexyLengthSeconds = Inr \<lparr>toBoolean = True, toNumber = Num 0\<rparr>,
      watchFlexyIsLive = Inr True,
      initialLengthSeconds = Inr \<lparr>toBoolean = True, toNumber = Num 0\<rparr>,
      initialIsLive = Inr True,
      scripts = [],
      watchMetadataHeading = None,
      infoHeading = None,
      activeReelHeading = None\<rparr>"

definition liveReport :: DurationResponse where
  "liveReport =
     \<lparr>DurationResponse.durationSeconds = Num 3600,
      DurationResponse.currentTimeSeconds = Num 600,
      DurationResponse.isLiveStream = True,
      DurationResponse.isLoading = False,
      DurationResponse.videoType = Video,
      DurationResponse.url = ''https://www.youtube.com/watch?v=live'',
      DurationResponse.title = ''News''\<rparr>"

text \<open>A record marked live, and a mapping that holds it.\<close>

definition liveRecord :: TabDurationInfo where
  "liveRecord =
     \<lparr>tabId = Num 5, url = ''https://www.youtube.com/watch?v=live'', title = ''News'',
      durationSeconds = Num 3600, currentTimeSeconds = Num 600, playbackRate = None,
      isLoading = False, videoType = Video, isLiveStream = Some True\<rparr>"

definition liveTabs :: "TabDurationInfo jsmap" where
  "liveTabs = [(Num 5, liveRecord)]"

section \<open>Evaluation lemmas\<close>

lemma natToString_small: "n < 10 \<Longrightarrow> natToString n = [digitChar n]"
  by (simp add: natToString.simps)

lemma natToString_big:
  "10 \<le> n \<Longrightarrow> natToString n = natToString (n div 10) @ [digitChar (n mod 10)]"
  by (subst natToString.simps) simp

lemmas format_eval = natToString_small natToString_big intToString_def jsRemainder_def padStart_def

section \<open>The aggregate\<close>

lemma calculateTotalRemaining_loop_sum:
  "calculateTotalRemaining_loop (Num a) infos =
     Num (a + sum_list (map remainingOf (filter (\<lambda>info. \<not> isLoading info) infos)))"
proof (induction infos arbitrary: a)
  case Nil
  show ?case by simp
next
  case (Cons info rest)
  show ?case
  proof (cases "isLoading info")
    case True
    then show ?thesis using Cons.IH [of a] by simp
  next
    case False
    let ?r = "num_div (num_sub (durationSeconds info) (currentTimeSeconds info))
                (rateOrOne (playbackRate info))"
    show ?thesis
    proof (cases ?r)
      case (Num x)
      then show ?thesis
        using False Cons.IH [of a] Cons.IH [of "a + x"]
        by (simp add: remainingOf_def Let_def add.assoc)
    qed (use False Cons.IH [of a] in \<open>simp_all add: remainingOf_def Let_def\<close>)
  qed
qed

lemma calculateTotalRemaining_sum:
  "calculateTotalRemaining m =
     Num (sum_list (map remainingOf (filter (\<lambda>info. \<not> isLoading info) (mapValues m))))"
  by (simp add: calculateTotalRemaining_def calculateTotalRemaining_loop_sum)

lemma remainingOf_spec:
  assumes "rateMissingZeroOrPositive (playbackRate info)"
  shows "remainingOf info = spec_contribution info"
proof -
  let ?d = "num_sub (durationSeconds info) (currentTimeSeconds info)"
  consider (none) "playbackRate info = None"
    | (fin) x where "playbackRate info = Some (Num x)" "0 \<le> x"
    | (inf) "playbackRate info = Some PosInfinity"
    using assms by (auto simp: rateMissingZeroOrPositive_def split: option.splits jsnum.splits)
  then show ?thesis
  proof cases
    case none
    then show ?thesis
      by (cases ?d) (auto simp: remainingOf_def spec_contribution_def rateOrOne_def spec_rate_def num_max_def)
  next
    case fin
    then show ?thesis
      by (cases ?d) (auto simp: remainingOf_def spec_contribution_def rateOrOne_def spec_rate_def
            num_max_def num_truthy_def zero_less_divide_iff divide_less_0_iff)
  next
    case inf
    then show ?thesis
      by (cases ?d) (auto simp: remainingOf_def spec_contribution_def rateOrOne_def spec_rate_def
            num_max_def num_truthy_def)
  qed
qed

section \<open>The formatters\<close>

text \<open>
  C8 does not hold of the code in its last equality. \<open>formatDuration(0) = "0m"\<close>,
  \<open>formatDuration(5400) = "1h30m"\<close>, \<open>formatTimestamp(90) = "1:30"\<close> and
  \<open>formatTimestamp(3661) = "1:01:01"\<close> hold. \<open>formatDurationLong(0)\<close> is \<open>"0 seconds"\<close>:
  zero is finite and not negative, no hour or minute part is pushed, and the seconds part
  is. The function's comment lists \<open>"0 minutes"\<close> among its outputs, which the code
  returns for an input that is not finite or is negative only.
\<close>

theorem formatters_examples:
  "formatDuration (Num 0) = ''0m'' \<and> formatDuration (Num 5400) = ''1h30m''
   \<and> formatTimestamp (Num 90) = ''1:30'' \<and> formatTimestamp (Num 3661) = ''1:01:01''
   \<and> formatDurationLong (Num 0) = ''0 seconds''
   \<and> formatDurationLong (Num 0) \<noteq> ''0 minutes''
   \<and> formatDurationLong NaN = ''0 minutes''
   \<and> formatDurationLong (Num (- 1)) = ''0 minutes''"
  by (simp add: formatDuration_def formatTimestamp_def formatDurationLong_def format_eval)

section \<open>What the operations do to the mapping\<close>

lemma set_mapSet: "set (mapSet k v m) \<subseteq> insert (k, v) (set m)"
  by (induction m) (auto split: if_splits)

lemma set_mapDelete: "set (mapDelete k m) \<subseteq> set m"
  by (auto simp: mapDelete_def)

lemma set_restoreCache:
  "set (restoreCache cache m) \<subseteq> set m \<union> {(tabId info, info) | info. Cached info \<in> set cache}"
proof (induction cache m rule: restoreCache.induct)
  case (3 info rest m)
  then show ?case using set_mapSet [of "tabId info" info m] by auto
qed auto

lemma schedulePersist_fields [simp]:
  "tabDurations (schedulePersist s) = tabDurations s"
  "storageLocal (schedulePersist s) = storageLocal s"
  "state.displayEnabled (schedulePersist s) = state.displayEnabled s"
  "setCalls (schedulePersist s) = setCalls s"
  "badgeText (schedulePersist s) = badgeText s"
  "now (schedulePersist s) = now s"
  by (simp_all add: schedulePersist_def setTimeout_def)

lemma updateBadge_fields [simp]:
  "tabDurations (updateBadge s) = tabDurations s"
  "storageLocal (updateBadge s) = storageLocal s"
  "state.displayEnabled (updateBadge s) = state.displayEnabled s"
  "setCalls (updateBadge s) = setCalls s"
  "now (updateBadge s) = now s"
  by (simp_all add: updateBadge_def Let_def)

lemma setTimeout_fields [simp]:
  "tabDurations (setTimeout cb d s) = tabDurations s"
  "storageLocal (setTimeout cb d s) = storageLocal s"
  "state.displayEnabled (setTimeout cb d s) = state.displayEnabled s"
  "setCalls (setTimeout cb d s) = setCalls s"
  "now (setTimeout cb d s) = now s"
  by (simp_all add: setTimeout_def)

lemma keysAreTabIds_mono:
  "keysAreTabIds m \<Longrightarrow> set m' \<subseteq> set m \<Longrightarrow> keysAreTabIds m'"
  by (auto simp: keysAreTabIds_def)

lemma keysAreTabIds_mapSet:
  "keysAreTabIds m \<Longrightarrow> tabId v = k \<Longrightarrow> keysAreTabIds (mapSet k v m)"
  using set_mapSet [of k v m] by (auto simp: keysAreTabIds_def)

lemma keysAreTabIds_restoreCache:
  "keysAreTabIds m \<Longrightarrow> keysAreTabIds (restoreCache cache m)"
  using set_restoreCache [of cache m] by (auto simp: keysAreTabIds_def)

lemma keysAreTabIds_step:
  assumes "keysAreTabIds (tabDurations s)"
  shows "keysAreTabIds (tabDurations (defineBackground s))"
    and "keysAreTabIds (tabDurations (onStorageLoaded st s))"
    and "keysAreTabIds (tabDurations (onRemoved tid s))"
    and "keysAreTabIds (tabDurations (onUpdated tid status tab_url s))"
    and "keysAreTabIds (tabDurations (onHistoryStateUpdated frameId details_url tid s))"
    and "keysAreTabIds (tabDurations (onReportDuration sender_tab_id data s))"
    and "keysAreTabIds (tabDurations (requestDurationFromTab tid retries outcome s))"
    and "keysAreTabIds (tabDurations (scanAllYouTubeTabs_prune open_tabs s))"
    and "keysAreTabIds (tabDurations (fst (toggleDisplay s)))"
    and "keysAreTabIds (tabDurations (fireTimer i s))"
proof -
  note del = keysAreTabIds_mono [OF assms set_mapDelete]
  show "keysAreTabIds (tabDurations (defineBackground s))"
    by (simp add: defineBackground_def keysAreTabIds_def)
  show "keysAreTabIds (tabDurations (onStorageLoaded st s))"
    using assms by (auto simp: onStorageLoaded_def Let_def keysAreTabIds_restoreCache split: option.splits)
  show "keysAreTabIds (tabDurations (onRemoved tid s))"
    using assms del by (simp add: onRemoved_def)
  show "keysAreTabIds (tabDurations (onUpdated tid status tab_url s))"
    using assms del by (simp add: onUpdated_def)
  show "keysAreTabIds (tabDurations (onHistoryStateUpdated frameId details_url tid s))"
    using assms del by (simp add: onHistoryStateUpdated_def)
  show "keysAreTabIds (tabDurations (onReportDuration sender_tab_id data s))"
    using assms del by (simp add: onReportDuration_def keysAreTabIds_mapSet split: option.splits)
  show "keysAreTabIds (tabDurations (requestDurationFromTab tid retries outcome s))"
    using assms by (simp add: requestDurationFromTab_def Let_def keysAreTabIds_mapSet split: sum.splits)
  show "keysAreTabIds (tabDurations (scanAllYouTubeTabs_prune open_tabs s))"
    using assms by (auto simp: scanAllYouTubeTabs_prune_def Let_def keysAreTabIds_def)
  show "keysAreTabIds (tabDurations (fst (toggleDisplay s)))"
    using assms by (simp add: toggleDisplay_def Let_def)
  show "keysAreTabIds (tabDurations (fireTimer i s))"
    using assms
    by (auto simp: fireTimer_def runCallback_def persistCallback_def Let_def
        split: option.splits callback.splits)
qed

text \<open>
  C10. In every reachable coordinator state every entry of the record mapping is keyed by
  the \<open>tabId\<close> of its record: the push and the pull store a record built with the key as
  its \<open>tabId\<close>, rehydration keys each restored record by its own \<open>tabId\<close>, and the
  deletions only remove entries. So a lookup of key \<open>k\<close> can only find a record whose
  \<open>tabId\<close> is \<open>k\<close>.
\<close>

theorem reachable_keysAreTabIds:
  assumes "reachable s"
  shows "keysAreTabIds (tabDurations s)
       \<and> (\<forall>k info. mapGet (tabDurations s) k = Some info \<longrightarrow> tabId info = k)"
proof -
  have inv: "keysAreTabIds (tabDurations s)"
    using assms
  proof (induction rule: reachable.induct)
    case install
    show ?case by (simp add: installed_def keysAreTabIds_def)
  qed (simp_all add: keysAreTabIds_step)
  moreover have "tabId info = k" if "mapGet (tabDurations s) k = Some info" for k info
    using inv map_of_SomeD [of "tabDurations s" k info] that
    by (auto simp: keysAreTabIds_def mapGet_def)
  ultimately show ?thesis by blast
qed


lemma sampleState_reachable: "reachable sampleState"
  unfolding sampleState_def by (intro reachable.reportDuration reachable.install)

lemma sampleState_tabDurations:
  "tabDurations sampleState =
     [(Num 7, \<lparr>tabId = Num 7, url = ''https://www.youtube.com/watch?v=a'', title = ''a'',
               durationSeconds = Num 1800, currentTimeSeconds = Num 600, playbackRate = None,
               isLoading = False, videoType = Video, isLiveStream = None\<rparr>),
      (Num 8, \<lparr>tabId = Num 8, url = ''https://www.youtube.com/shorts/b'', title = ''b'',
               durationSeconds = Num 0, currentTimeSeconds = Num 0, playbackRate = None,
               isLoading = True, videoType = Short, isLiveStream = None\<rparr>)]"
  by (simp add: sampleState_def onReportDuration_def isYouTubeVideoUrl_def startsWith_def
        sampleReport_def loadingReport_def installed_def)

text \<open>The sample state, after pushes from tabs 7 and 8, is reachable; its keys and the
  \<open>tabId\<close>s of its records are both 7, 8.\<close>

theorem reachable_keysAreTabIds_witness:
  "reachable sampleState \<and> keysAreTabIds (tabDurations sampleState)
   \<and> mapKeys (tabDurations sampleState) = [Num 7, Num 8]
   \<and> map tabId (mapValues (tabDurations sampleState)) = [Num 7, Num 8]"
  using reachable_keysAreTabIds [OF sampleState_reachable] sampleState_reachable
  by (simp add: sampleState_tabDurations mapKeys_def mapValues_def)

section \<open>No record carries a playback rate\<close>

lemma noPlaybackRate_mono:
  "noPlaybackRate m \<Longrightarrow> set m' \<subseteq> set m \<Longrightarrow> noPlaybackRate m'"
  by (auto simp: noPlaybackRate_def)

lemma noPlaybackRate_mapSet:
  "noPlaybackRate m \<Longrightarrow> playbackRate v = None \<Longrightarrow> noPlaybackRate (mapSet k v m)"
  using set_mapSet [of k v m] by (auto simp: noPlaybackRate_def)

lemma noPlaybackRate_restoreCache:
  "noPlaybackRate m
     \<Longrightarrow> \<forall>c \<in> set cache. case c of Unusable \<Rightarrow> True | Cached info \<Rightarrow> playbackRate info = None
     \<Longrightarrow> noPlaybackRate (restoreCache cache m)"
  using set_restoreCache [of cache m] by (fastforce simp: noPlaybackRate_def)


lemma rateInv_step:
  assumes "rateInv s"
  shows "rateInv (defineBackground s)"
    and "rateInv (onStorageLoaded (storageLocal s) s)"
    and "rateInv (onRemoved tid s)"
    and "rateInv (onUpdated tid status tab_url s)"
    and "rateInv (onHistoryStateUpdated frameId details_url tid s)"
    and "rateInv (onReportDuration sender_tab_id data s)"
    and "rateInv (requestDurationFromTab tid retries outcome s)"
    and "rateInv (scanAllYouTubeTabs_prune open_tabs s)"
    and "rateInv (updateBadge s)"
    and "rateInv (fst (toggleDisplay s))"
    and "rateInv (fireTimer i s)"
    and "rateInv (s\<lparr>now := now s + d\<rparr>)"
proof -
  from assms have m: "noPlaybackRate (tabDurations s)" and c: "cacheNoPlaybackRate (storageLocal s)"
    by (simp_all add: rateInv_def)
  note del = noPlaybackRate_mono [OF m set_mapDelete]
  show "rateInv (defineBackground s)"
    using c by (simp add: rateInv_def defineBackground_def noPlaybackRate_def)
  show "rateInv (onStorageLoaded (storageLocal s) s)"
    using m c
    by (auto simp: rateInv_def onStorageLoaded_def Let_def cacheNoPlaybackRate_def
        intro: noPlaybackRate_restoreCache split: option.splits)
  show "rateInv (onRemoved tid s)"
    using m c del by (simp add: rateInv_def onRemoved_def)
  show "rateInv (onUpdated tid status tab_url s)"
    using m c del by (simp add: rateInv_def onUpdated_def)
  show "rateInv (onHistoryStateUpdated frameId details_url tid s)"
    using m c del by (simp add: rateInv_def onHistoryStateUpdated_def)
  show "rateInv (onReportDuration sender_tab_id data s)"
    using m c del by (simp add: rateInv_def onReportDuration_def noPlaybackRate_mapSet split: option.splits)
  show "rateInv (requestDurationFromTab tid retries outcome s)"
    using m c by (simp add: rateInv_def requestDurationFromTab_def Let_def noPlaybackRate_mapSet split: sum.splits)
  show "rateInv (scanAllYouTubeTabs_prune open_tabs s)"
    using m c by (auto simp: rateInv_def scanAllYouTubeTabs_prune_def Let_def noPlaybackRate_def)
  show "rateInv (updateBadge s)"
    using m c by (simp add: rateInv_def)
  show "rateInv (fst (toggleDisplay s))"
    using m c by (simp add: rateInv_def toggleDisplay_def Let_def cacheNoPlaybackRate_def)
  show "rateInv (fireTimer i s)"
    using m c
    by (auto simp: rateInv_def fireTimer_def runCallback_def persistCallback_def Let_def
        cacheNoPlaybackRate_def noPlaybackRate_def mapValues_def
        split: option.splits callback.splits)
  show "rateInv (s\<lparr>now := now s + d\<rparr>)"
    using m c by (simp add: rateInv_def)
qed

lemma reachable_rateInv: "reachable s \<Longrightarrow> rateInv s"
proof (induction rule: reachable.induct)
  case install
  show ?case
    by (simp add: rateInv_def installed_def noPlaybackRate_def cacheNoPlaybackRate_def)
qed (simp_all add: rateInv_step)

lemma num_div_one: "num_div a (Num 1) = a"
  by (cases a) simp_all

lemma remainingOf_no_rate:
  "playbackRate info = None \<Longrightarrow> remainingOf info = positiveDifference info"
  by (simp add: remainingOf_def positiveDifference_def rateOrOne_def num_div_one)

text \<open>
  C9. A push and a pull store a record without a playback rate (the message has no such
  property), the persisted array only ever holds records of the mapping, and rehydration
  restores records from that array. So in every state reachable from installation no
  record of the mapping carries a playback rate: \<open>calculateTotalRemaining\<close> divides by 1,
  each record adds exactly \<open>durationSeconds - currentTimeSeconds\<close> when that difference is
  finite and positive (and nothing otherwise), and the total is the sum of these over the
  records that are not loading.
\<close>

theorem reachable_no_playbackRate:
  assumes "reachable s"
  shows "(\<forall>info \<in> set (mapValues (tabDurations s)).
            playbackRate info = None \<and> rateOrOne (playbackRate info) = Num 1
            \<and> remainingOf info = positiveDifference info)
       \<and> calculateTotalRemaining (tabDurations s) =
           Num (sum_list (map positiveDifference
                  (filter (\<lambda>info. \<not> isLoading info) (mapValues (tabDurations s)))))"
proof -
  have none: "playbackRate info = None" if "info \<in> set (mapValues (tabDurations s))" for info
    using reachable_rateInv [OF assms] that
    by (auto simp: rateInv_def noPlaybackRate_def mapValues_def)
  then have rem: "remainingOf info = positiveDifference info"
    if "info \<in> set (mapValues (tabDurations s))" for info
    using that by (simp add: remainingOf_no_rate)
  have "map remainingOf (filter (\<lambda>info. \<not> isLoading info) (mapValues (tabDurations s)))
      = map positiveDifference (filter (\<lambda>info. \<not> isLoading info) (mapValues (tabDurations s)))"
    by (rule map_cong [OF refl]) (simp add: rem)
  then have "calculateTotalRemaining (tabDurations s) =
           Num (sum_list (map positiveDifference
                  (filter (\<lambda>info. \<not> isLoading info) (mapValues (tabDurations s)))))"
    by (simp only: calculateTotalRemaining_sum)
  moreover have "\<forall>info \<in> set (mapValues (tabDurations s)).
            playbackRate info = None \<and> rateOrOne (playbackRate info) = Num 1
            \<and> remainingOf info = positiveDifference info"
    using none rem by (simp add: rateOrOne_def)
  ultimately show ?thesis by blast
qed

text \<open>In the sample state neither record has a playback rate, and the total is the
  1800 - 600 seconds of the one record that is not loading.\<close>

theorem reachable_no_playbackRate_witness:
  "reachable sampleState
   \<and> map playbackRate (mapValues (tabDurations sampleState)) = [None, None]
   \<and> calculateTotalRemaining (tabDurations sampleState) = Num 1200"
proof -
  have "calculateTotalRemaining (tabDurations sampleState) =
           Num (sum_list (map positiveDifference
                  (filter (\<lambda>info. \<not> isLoading info) (mapValues (tabDurations sampleState)))))"
    using reachable_no_playbackRate [OF sampleState_reachable] by blast
  then have "calculateTotalRemaining (tabDurations sampleState) = Num 1200"
    by (simp add: sampleState_tabDurations mapValues_def positiveDifference_def num_sub_def)
  then show ?thesis
    using sampleState_reachable by (simp add: sampleState_tabDurations mapValues_def)
qed

section \<open>The aggregate as the specification's formula\<close>

lemma calculateTotalRemaining_valid_rates:
  assumes ok: "\<forall>info \<in> set (mapValues m).
                 \<not> isLoading info \<longrightarrow> rateMissingZeroOrPositive (playbackRate info)"
  shows "calculateTotalRemaining m = spec_totalRemaining m"
proof -
  have "\<forall>info \<in> set (filter (\<lambda>info. \<not> isLoading info) (mapValues m)).
          remainingOf info = spec_contribution info"
    using ok by (auto intro: remainingOf_spec)
  then have "map remainingOf (filter (\<lambda>info. \<not> isLoading info) (mapValues m))
      = map spec_contribution (filter (\<lambda>info. \<not> isLoading info) (mapValues m))"
    by (simp only: map_eq_conv)
  then show ?thesis
    by (simp only: calculateTotalRemaining_sum spec_totalRemaining_def)
qed

lemma reachable_valid_rates:
  assumes "reachable s"
  shows "\<forall>info \<in> set (mapValues (tabDurations s)).
           \<not> isLoading info \<longrightarrow> rateMissingZeroOrPositive (playbackRate info)"
  using reachable_rateInv [OF assms]
  by (auto simp: rateInv_def noPlaybackRate_def mapValues_def rateMissingZeroOrPositive_def)

text \<open>
  C2. \<open>calculateTotalRemaining\<close> returns the sum, over exactly the records with
  \<open>isLoading = false\<close>, of \<open>max(0, durationSeconds - currentTimeSeconds) / playbackRate\<close>,
  where a missing or zero rate counts as 1 and a result that is not finite or is negative
  adds nothing. This holds for every mapping whose records that are not loading have a
  rate the data model admits (missing, zero or positive), whatever their durations and
  positions, and so for the mapping of every reachable coordinator state, where no record
  has a rate.
\<close>

theorem calculateTotalRemaining_formula:
  "((\<forall>info \<in> set (mapValues m).
        \<not> isLoading info \<longrightarrow> rateMissingZeroOrPositive (playbackRate info))
      \<longrightarrow> calculateTotalRemaining m = spec_totalRemaining m)
   \<and> (reachable s \<longrightarrow>
        calculateTotalRemaining (tabDurations s) = spec_totalRemaining (tabDurations s))"
  using calculateTotalRemaining_valid_rates [of m]
    calculateTotalRemaining_valid_rates [OF reachable_valid_rates, of s]
  by blast

text \<open>The three sample records have rates 2, missing and zero, the third still loading:
  the code and the formula both give 600 + 600 seconds. In the reachable sample state both
  give the 1200 seconds of the record that is not loading.\<close>

theorem calculateTotalRemaining_formula_witness:
  "calculateTotalRemaining sampleTabs = Num 1200 \<and> spec_totalRemaining sampleTabs = Num 1200
   \<and> reachable sampleState
   \<and> calculateTotalRemaining (tabDurations sampleState) = Num 1200
   \<and> spec_totalRemaining (tabDurations sampleState) = Num 1200"
proof -
  have ok: "\<forall>info \<in> set (mapValues sampleTabs).
              \<not> isLoading info \<longrightarrow> rateMissingZeroOrPositive (playbackRate info)"
    by (simp add: sampleTabs_def mapValues_def rateMissingZeroOrPositive_def)
  have "calculateTotalRemaining sampleTabs = spec_totalRemaining sampleTabs"
    using calculateTotalRemaining_formula [of sampleTabs sampleState] ok by blast
  moreover have "spec_totalRemaining sampleTabs = Num 1200"
    by (simp add: spec_totalRemaining_def spec_contribution_def spec_rate_def sampleTabs_def
          mapValues_def num_sub_def num_max_def)
  moreover have "calculateTotalRemaining (tabDurations sampleState)
                   = spec_totalRemaining (tabDurations sampleState)"
    using calculateTotalRemaining_formula [of sampleTabs sampleState] sampleState_reachable
    by blast
  moreover have "spec_totalRemaining (tabDurations sampleState) = Num 1200"
    by (simp add: spec_totalRemaining_def spec_contribution_def spec_rate_def
          sampleState_tabDurations mapValues_def num_sub_def num_max_def)
  ultimately show ?thesis
    using sampleState_reachable by simp
qed

section \<open>Pushes, pulls and the toggle\<close>

lemma mapGet_mapSet: "mapGet (mapSet k v m) k' = (if k' = k then Some v else mapGet m k')"
  by (induction m) (auto simp: mapGet_def)

lemma mapGet_mapDelete: "mapGet (mapDelete k m) k' = (if k' = k then None else mapGet m k')"
  by (induction m) (auto simp: mapGet_def mapDelete_def)

lemma mapKeys_mapDelete: "set (mapKeys (mapDelete k m)) = set (mapKeys m) - {k}"
  by (auto simp: mapKeys_def mapDelete_def)

text \<open>
  C4. A push whose sender has a tab id and whose URL is not a tracked video page deletes
  that tab's record: afterwards the mapping is the old one without that key, the tab is
  absent whether or not it had a record, no key is added, and every other entry is as it
  was. A push whose URL is a tracked video page instead stores, under the sender's tab id,
  the record built from the message, and leaves every other entry as it was.
\<close>

theorem onReportDuration_push:
  "(\<not> isYouTubeVideoUrl (Some (DurationResponse.url data)) \<longrightarrow>
      tabDurations (onReportDuration (Some tid) data s) = mapDelete tid (tabDurations s)
      \<and> mapGet (tabDurations (onReportDuration (Some tid) data s)) tid = None
      \<and> \<not> mapHas (tabDurations (onReportDuration (Some tid) data s)) tid
      \<and> set (mapKeys (tabDurations (onReportDuration (Some tid) data s)))
          = set (mapKeys (tabDurations s)) - {tid}
      \<and> (\<forall>k. k \<noteq> tid \<longrightarrow>
            mapGet (tabDurations (onReportDuration (Some tid) data s)) k = mapGet (tabDurations s) k))
   \<and> (isYouTubeVideoUrl (Some (DurationResponse.url data)) \<longrightarrow>
      mapGet (tabDurations (onReportDuration (Some tid) data s)) tid =
        Some \<lparr>tabId = tid,
              url = DurationResponse.url data,
              title = DurationResponse.title data,
              durationSeconds = DurationResponse.durationSeconds data,
              currentTimeSeconds = DurationResponse.currentTimeSeconds data,
              playbackRate = None,
              isLoading = DurationResponse.isLoading data,
              videoType = DurationResponse.videoType data,
              isLiveStream = None\<rparr>
      \<and> (\<forall>k. k \<noteq> tid \<longrightarrow>
            mapGet (tabDurations (onReportDuration (Some tid) data s)) k = mapGet (tabDurations s) k))"
  by (simp add: onReportDuration_def mapGet_mapSet mapGet_mapDelete mapHas_def mapKeys_mapDelete)

text \<open>In the sample state tab 7 has a record; a push from tab 7 with the home page's URL
  removes it and leaves tab 8 only, and a push from tab 9 with a watch URL stores a record
  for tab 9.\<close>

theorem onReportDuration_push_witness:
  "mapGet (tabDurations sampleState) (Num 7) \<noteq> None
   \<and> mapGet (tabDurations (onReportDuration (Some (Num 7)) homeReport sampleState)) (Num 7) = None
   \<and> mapKeys (tabDurations (onReportDuration (Some (Num 7)) homeReport sampleState)) = [Num 8]
   \<and> mapGet (tabDurations (onReportDuration (Some (Num 9)) sampleReport sampleState)) (Num 9) =
        Some \<lparr>tabId = Num 9, url = ''https://www.youtube.com/watch?v=a'', title = ''a'',
              durationSeconds = Num 1800, currentTimeSeconds = Num 600, playbackRate = None,
              isLoading = False, videoType = Video, isLiveStream = None\<rparr>"
proof -
  have no: "\<not> isYouTubeVideoUrl (Some (DurationResponse.url homeReport))"
    by (simp add: homeReport_def sampleReport_def isYouTubeVideoUrl_def startsWith_def)
  have yes: "isYouTubeVideoUrl (Some (DurationResponse.url sampleReport))"
    by (simp add: sampleReport_def isYouTubeVideoUrl_def startsWith_def)
  have del: "tabDurations (onReportDuration (Some (Num 7)) homeReport sampleState)
               = mapDelete (Num 7) (tabDurations sampleState)"
    and gone: "mapGet (tabDurations (onReportDuration (Some (Num 7)) homeReport sampleState)) (Num 7) = None"
    using onReportDuration_push [of homeReport "Num 7" sampleState] no by blast+
  have put: "mapGet (tabDurations (onReportDuration (Some (Num 9)) sampleReport sampleState)) (Num 9) =
        Some \<lparr>tabId = Num 9, url = ''https://www.youtube.com/watch?v=a'', title = ''a'',
              durationSeconds = Num 1800, currentTimeSeconds = Num 600, playbackRate = None,
              isLoading = False, videoType = Video, isLiveStream = None\<rparr>"
    using onReportDuration_push [of sampleReport "Num 9" sampleState] yes
    by (simp add: sampleReport_def)
  show ?thesis
    using gone put by (simp add: del sampleState_tabDurations mapGet_def mapKeys_def mapDelete_def)
qed

text \<open>
  C5. When the transport rejects a pull, \<open>requestDurationFromTab\<close> leaves the coordinator's
  state, and so the record mapping, exactly as it was: the target tab's record is neither
  deleted nor modified, and no other entry changes.
\<close>

theorem requestDurationFromTab_rejected:
  "requestDurationFromTab tid retries (Inl e) s = s
   \<and> tabDurations (requestDurationFromTab tid retries (Inl e) s) = tabDurations s
   \<and> mapGet (tabDurations (requestDurationFromTab tid retries (Inl e) s)) tid
       = mapGet (tabDurations s) tid"
  by (simp add: requestDurationFromTab_def)

text \<open>
  C7. The toggle flips the display flag, returns the new flag, and writes it to storage in
  the handler itself (the write is the one new storage call, and the stored flag is the new
  one). It leaves the record mapping as it was and repaints: the badge text is empty when
  the new flag is false, and the formatted aggregate (or empty, when the aggregate is not
  positive) when it is true. A snapshot taken afterwards reports the records of the
  unchanged mapping, the aggregate computed from them and the new flag, whatever the flag.
\<close>

theorem toggleDisplay_effect:
  "state.displayEnabled (fst (toggleDisplay s)) = (\<not> state.displayEnabled s)
   \<and> snd (toggleDisplay s) = (\<not> state.displayEnabled s)
   \<and> storedDisplayEnabled (storageLocal (fst (toggleDisplay s))) = Some (\<not> state.displayEnabled s)
   \<and> setCalls (fst (toggleDisplay s)) = setCalls s @ [SetDisplayEnabled (\<not> state.displayEnabled s)]
   \<and> tabDurations (fst (toggleDisplay s)) = tabDurations s
   \<and> badgeText (fst (toggleDisplay s)) =
       (if state.displayEnabled s then ''''
        else if num_gt (calculateTotalRemaining (tabDurations s)) (Num 0)
             then formatDuration (calculateTotalRemaining (tabDurations s)) else '''')
   \<and> tabs (getPopupData (fst (toggleDisplay s))) = mapValues (tabDurations s)
   \<and> totalDurationSeconds (getPopupData (fst (toggleDisplay s)))
       = calculateTotalRemaining (tabDurations s)
   \<and> totalFormatted (getPopupData (fst (toggleDisplay s)))
       = formatDuration (calculateTotalRemaining (tabDurations s))
   \<and> PopupData.displayEnabled (getPopupData (fst (toggleDisplay s))) = (\<not> state.displayEnabled s)"
  by (simp add: toggleDisplay_def getPopupData_def Let_def updateBadge_def)

lemma updateBadge_badgeText:
  "badgeText (updateBadge s) =
     (if \<not> state.displayEnabled s then ''''
      else if num_gt (calculateTotalRemaining (tabDurations s)) (Num 0)
           then formatDuration (calculateTotalRemaining (tabDurations s)) else '''')"
  by (simp add: updateBadge_def Let_def)

lemma onReportDuration_badgeText:
  "badgeText (onReportDuration (Some tid) data s) =
     (if \<not> state.displayEnabled s then ''''
      else if num_gt (calculateTotalRemaining (tabDurations (onReportDuration (Some tid) data s))) (Num 0)
           then formatDuration (calculateTotalRemaining (tabDurations (onReportDuration (Some tid) data s)))
           else '''')"
  by (simp add: onReportDuration_def updateBadge_badgeText)

lemma onReportDuration_displayEnabled:
  "state.displayEnabled (onReportDuration sender_tab_id data s) = state.displayEnabled s"
  by (simp add: onReportDuration_def split: option.splits)

lemma sampleState_total: "calculateTotalRemaining (tabDurations sampleState) = Num 1200"
  by (simp add: sampleState_tabDurations calculateTotalRemaining_def mapValues_def
        rateOrOne_def num_sub_def)

lemma sampleState_displayEnabled: "state.displayEnabled sampleState"
  by (simp add: sampleState_def onReportDuration_displayEnabled installed_def)

lemma formatDuration_1200: "formatDuration (Num 1200) = ''20m''"
  by (simp add: formatDuration_def format_eval)

lemma sampleState_badgeText: "badgeText sampleState = ''20m''"
proof -
  have "badgeText sampleState =
     (if num_gt (calculateTotalRemaining (tabDurations sampleState)) (Num 0)
      then formatDuration (calculateTotalRemaining (tabDurations sampleState)) else '''')"
    unfolding sampleState_def
    by (subst onReportDuration_badgeText) (simp add: onReportDuration_displayEnabled installed_def)
  then show ?thesis by (simp add: sampleState_total formatDuration_1200)
qed

text \<open>The sample state shows \<open>20m\<close>; toggling it returns false and empties the badge,
  stores false, and the snapshot still reports 1200 seconds, \<open>20m\<close>.\<close>

theorem toggleDisplay_effect_witness:
  "badgeText sampleState = ''20m''
   \<and> snd (toggleDisplay sampleState) = False
   \<and> badgeText (fst (toggleDisplay sampleState)) = ''''
   \<and> storedDisplayEnabled (storageLocal (fst (toggleDisplay sampleState))) = Some False
   \<and> totalDurationSeconds (getPopupData (fst (toggleDisplay sampleState))) = Num 1200
   \<and> totalFormatted (getPopupData (fst (toggleDisplay sampleState))) = ''20m''"
  using toggleDisplay_effect [of sampleState]
  by (simp add: sampleState_total formatDuration_1200 sampleState_displayEnabled sampleState_badgeText)

section \<open>Throttled persistence\<close>

lemma timers_fresh:
  assumes "\<forall>(i, deadline, cb) \<in> set ts. i < (n::nat)"
  shows "n \<notin> fst ` set ts"
proof
  assume "n \<in> fst ` set ts"
  then obtain t where "t \<in> set ts" "fst t = n" by auto
  with assms have "n < n" by (cases t) fastforce
  then show False by simp
qed

lemma timersInv_append:
  assumes inv: "timersInv s"
    and ts: "timers s' = timers s @ [(nextTimerId s, deadline, cb)]"
    and nx: "nextTimerId s' = Suc (nextTimerId s)"
    and pt: "(cb \<noteq> PersistCallback \<and> persistTimeout s' = persistTimeout s)
           \<or> (cb = PersistCallback \<and> persistTimeout s = None
               \<and> persistTimeout s' = Some (nextTimerId s))"
  shows "timersInv s'"
proof -
  from inv have dist: "distinct (map fst (timers s))"
    and bound: "\<forall>(i, deadline, cb) \<in> set (timers s). i < nextTimerId s"
    and per: "case persistTimeout s of None \<Rightarrow> persistTimers s = []
          | Some i \<Rightarrow> (\<exists>deadline. persistTimers s = [(i, deadline, PersistCallback)])"
    by (simp_all add: timersInv_def)
  have "distinct (map fst (timers s'))"
    using dist timers_fresh [OF bound] by (simp add: ts)
  moreover have "\<forall>(i, deadline, cb) \<in> set (timers s'). i < nextTimerId s'"
    using bound by (auto simp: ts nx less_Suc_eq)
  moreover have "case persistTimeout s' of None \<Rightarrow> persistTimers s' = []
          | Some i \<Rightarrow> (\<exists>deadline. persistTimers s' = [(i, deadline, PersistCallback)])"
  proof -
    have app: "persistTimers s' = persistTimers s @ (if cb = PersistCallback then [(nextTimerId s, deadline, cb)] else [])"
      by (simp add: persistTimers_def ts)
    from pt show ?thesis
    proof
      assume "cb \<noteq> PersistCallback \<and> persistTimeout s' = persistTimeout s"
      then show ?thesis using per by (simp add: app split: option.splits)
    next
      assume "cb = PersistCallback \<and> persistTimeout s = None \<and> persistTimeout s' = Some (nextTimerId s)"
      then show ?thesis using per by (simp add: app)
    qed
  qed
  ultimately show ?thesis by (simp add: timersInv_def)
qed

lemma setTimeout_timersInv:
  assumes "timersInv s" and "cb \<noteq> PersistCallback"
  shows "timersInv (setTimeout cb d s)"
  by (rule timersInv_append [OF assms(1), of _ "now s + d" cb]) (simp_all add: setTimeout_def assms(2))

lemma schedulePersist_timersInv:
  assumes "timersInv s"
  shows "timersInv (schedulePersist s)"
proof (cases "persistTimeout s")
  case None
  show ?thesis
    by (rule timersInv_append [OF assms, of _ "now s + 2000" PersistCallback])
       (simp_all add: schedulePersist_def setTimeout_def None)
next
  case (Some i)
  then show ?thesis using assms by (simp add: schedulePersist_def)
qed

lemma timersInv_cong:
  "timers s' = timers s \<Longrightarrow> nextTimerId s' = nextTimerId s \<Longrightarrow> persistTimeout s' = persistTimeout s
     \<Longrightarrow> timersInv s' = timersInv s"
  unfolding timersInv_def persistTimers_def by (simp split: option.splits)

lemma updateBadge_timersInv:
  assumes "timersInv s"
  shows "timersInv (updateBadge s)"
proof -
  have "timersInv (s\<lparr>badgeText := t\<rparr>)" "timersInv (s\<lparr>badgeText := t, badgeBackgroundColor := c\<rparr>)" for t c
    using assms timersInv_cong [of "s\<lparr>badgeText := t\<rparr>" s]
      timersInv_cong [of "s\<lparr>badgeText := t, badgeBackgroundColor := c\<rparr>" s]
    by simp_all
  then show ?thesis
    by (simp add: updateBadge_def Let_def schedulePersist_timersInv)
qed

lemma filter_persist_rest:
  "filter (\<lambda>(i, deadline, cb). cb = PersistCallback) (filter (\<lambda>(j', d', cb'). j' \<noteq> i) ts)
     = filter (\<lambda>(j', d', cb'). j' \<noteq> i) (filter (\<lambda>(i, deadline, cb). cb = PersistCallback) ts)"
  by (induction ts) auto

lemma persistCallback_timersInv:
  assumes "distinct (map fst (timers s))"
    and "\<forall>(i, deadline, cb) \<in> set (timers s). i < nextTimerId s"
    and "persistTimers s = []"
  shows "timersInv (persistCallback s)"
  using assms by (simp add: timersInv_def persistTimers_def persistCallback_def Let_def)

lemma fireTimer_timersInv:
  assumes "timersInv s"
  shows "timersInv (fireTimer i s)"
proof (cases "find (\<lambda>(j, deadline, cb). j = i \<and> deadline \<le> now s) (timers s)")
  case None
  then show ?thesis using assms by (simp add: fireTimer_def)
next
  case (Some t)
  obtain j deadline cb where t: "t = (j, deadline, cb)" by (cases t)
  from Some t have mem: "(i, deadline, cb) \<in> set (timers s)" and ji: "j = i"
    by (auto simp: find_Some_iff in_set_conv_nth)
  let ?rest = "filter (\<lambda>(j', d', cb'). j' \<noteq> i) (timers s)"
  from assms have dist: "distinct (map fst (timers s))"
    and bound: "\<forall>(i, deadline, cb) \<in> set (timers s). i < nextTimerId s"
    by (simp_all add: timersInv_def)
  have only: "(i, d', cb') \<in> set (timers s) \<Longrightarrow> d' = deadline \<and> cb' = cb" for d' cb'
    using map_of_is_SomeI [OF dist mem] map_of_is_SomeI [OF dist, of i "(d', cb')"] by simp
  have dist': "distinct (map fst ?rest)"
    using dist by (simp add: distinct_map_filter)
  have bound': "\<forall>(i, deadline, cb) \<in> set ?rest. i < nextTimerId s"
    using bound by auto
  have rest: "persistTimers (s\<lparr>timers := ?rest\<rparr>)
            = filter (\<lambda>(j', d', cb'). j' \<noteq> i) (persistTimers s)"
  proof -
    have sel: "timers (s\<lparr>timers := ?rest\<rparr>) = ?rest" by simp
    show ?thesis unfolding persistTimers_def sel by (rule filter_persist_rest)
  qed
  have fire: "fireTimer i s = runCallback cb (s\<lparr>timers := ?rest\<rparr>)"
    unfolding fireTimer_def Some t by simp
  from assms have per: "case persistTimeout s of None \<Rightarrow> persistTimers s = []
          | Some i \<Rightarrow> (\<exists>deadline. persistTimers s = [(i, deadline, PersistCallback)])"
    by (simp add: timersInv_def)
  have inv': "timersInv (s\<lparr>timers := ?rest\<rparr>)" if "persistTimers (s\<lparr>timers := ?rest\<rparr>) = persistTimers s"
    unfolding timersInv_def that using dist' bound' per by simp
  show ?thesis
  proof (cases cb)
    case PersistCallback
    with mem have "(i, deadline, PersistCallback) \<in> set (persistTimers s)"
      by (simp add: persistTimers_def)
    with per have pt: "persistTimers s = [(i, deadline, PersistCallback)]"
      by (auto split: option.splits)
    have empty: "persistTimers (s\<lparr>timers := ?rest\<rparr>) = []"
      unfolding rest pt by simp
    show ?thesis
      unfolding fire PersistCallback
      using persistCallback_timersInv [of "s\<lparr>timers := ?rest\<rparr>"] dist' bound' empty
      by (simp add: runCallback_def)
  next
    case (PullCallback tid retries)
    have "(j', d', PersistCallback) \<in> set (timers s) \<Longrightarrow> j' \<noteq> i" for j' d'
      using only PullCallback by auto
    then have "\<forall>x \<in> set (persistTimers s). (case x of (j', d', cb') \<Rightarrow> j' \<noteq> i)"
      by (auto simp: persistTimers_def)
    then have "filter (\<lambda>(j', d', cb'). j' \<noteq> i) (persistTimers s) = persistTimers s"
      by (rule filter_True)
    then have keep: "persistTimers (s\<lparr>timers := ?rest\<rparr>) = persistTimers s"
      by (simp only: rest)
    show ?thesis
      unfolding fire PullCallback using inv' [OF keep] by (simp add: runCallback_def)
  qed
qed

lemma timersInv_update [simp]:
  "timersInv (s\<lparr>tabDurations := m\<rparr>) = timersInv s"
  "timersInv (s\<lparr>state.displayEnabled := b\<rparr>) = timersInv s"
  "timersInv (s\<lparr>now := t\<rparr>) = timersInv s"
  "timersInv (s\<lparr>storageLocal := st\<rparr>) = timersInv s"
  "timersInv (s\<lparr>setCalls := cs\<rparr>) = timersInv s"
  unfolding timersInv_def persistTimers_def by (simp_all cong: option.case_cong)

lemma timersInv_step:
  assumes "timersInv s"
  shows "timersInv (defineBackground s)"
    and "timersInv (onStorageLoaded st s)"
    and "timersInv (onRemoved tid s)"
    and "timersInv (onUpdated tid status tab_url s)"
    and "timersInv (onHistoryStateUpdated frameId details_url tid s)"
    and "timersInv (onReportDuration sender_tab_id data s)"
    and "timersInv (requestDurationFromTab tid retries outcome s)"
    and "timersInv (scanAllYouTubeTabs_prune open_tabs s)"
    and "timersInv (fst (toggleDisplay s))"
proof -
  note ub = updateBadge_timersInv and st = setTimeout_timersInv
  show "timersInv (defineBackground s)"
    unfolding timersInv_def persistTimers_def defineBackground_def by simp
  show "timersInv (onStorageLoaded st s)"
    unfolding onStorageLoaded_def Let_def
    using assms by (auto intro!: ub split: option.splits)
  show "timersInv (onRemoved tid s)"
    unfolding onRemoved_def using assms by (auto intro!: ub)
  show "timersInv (onUpdated tid status tab_url s)"
    unfolding onUpdated_def using assms by (auto intro!: ub st)
  show "timersInv (onHistoryStateUpdated frameId details_url tid s)"
    unfolding onHistoryStateUpdated_def using assms by (auto intro!: ub st)
  show "timersInv (onReportDuration sender_tab_id data s)"
    unfolding onReportDuration_def using assms by (auto intro!: ub split: option.splits)
  show "timersInv (requestDurationFromTab tid retries outcome s)"
    unfolding requestDurationFromTab_def Let_def
    using assms by (auto intro!: ub st split: sum.splits)
  show "timersInv (scanAllYouTubeTabs_prune open_tabs s)"
    unfolding scanAllYouTubeTabs_prune_def Let_def using assms by simp
  show "timersInv (fst (toggleDisplay s))"
    unfolding toggleDisplay_def Let_def using assms by (auto intro!: ub)
qed

lemma reachable_timersInv: "reachable s \<Longrightarrow> timersInv s"
proof (induction rule: reachable.induct)
  case install
  show ?case by (simp add: installed_def timersInv_def persistTimers_def)
qed (simp_all add: timersInv_step updateBadge_timersInv fireTimer_timersInv)

text \<open>The first mutation after an idle state schedules the write; a mutation while a
  write is pending leaves timers and storage as they are.\<close>

lemma updateBadge_idle:
  assumes "persistTimeout s = None"
  shows "timers (updateBadge s) = timers s @ [(nextTimerId s, now s + 2000, PersistCallback)]"
    and "persistTimeout (updateBadge s) = Some (nextTimerId s)"
    and "nextTimerId (updateBadge s) = Suc (nextTimerId s)"
  using assms by (simp_all add: updateBadge_def Let_def schedulePersist_def setTimeout_def)

lemma updateBadge_pending:
  assumes "persistTimeout s = Some i"
  shows "timers (updateBadge s) = timers s"
    and "persistTimeout (updateBadge s) = Some i"
    and "nextTimerId (updateBadge s) = nextTimerId s"
  using assms by (simp_all add: updateBadge_def Let_def schedulePersist_def)

lemma mutate_idle:
  assumes "persistTimeout s = None"
  shows "timers (mutate (d, f) s) = timers s @ [(nextTimerId s, now s + d + 2000, PersistCallback)]"
    and "persistTimeout (mutate (d, f) s) = Some (nextTimerId s)"
    and "setCalls (mutate (d, f) s) = setCalls s"
    and "storageLocal (mutate (d, f) s) = storageLocal s"
  using assms by (simp_all add: mutate_def updateBadge_idle)

lemma mutate_pending:
  assumes "persistTimeout s = Some i"
  shows "timers (mutate df s) = timers s"
    and "persistTimeout (mutate df s) = Some i"
    and "setCalls (mutate df s) = setCalls s"
    and "storageLocal (mutate df s) = storageLocal s"
  using assms by (simp_all add: mutate_def updateBadge_pending)

lemma mutations_pending:
  assumes "persistTimeout s = Some i"
  shows "timers (mutations ms s) = timers s \<and> persistTimeout (mutations ms s) = Some i
       \<and> setCalls (mutations ms s) = setCalls s \<and> storageLocal (mutations ms s) = storageLocal s"
  using assms
proof (induction ms arbitrary: s)
  case Nil
  then show ?case by (simp add: mutations_def)
next
  case (Cons df ms)
  have "mutations (df # ms) s = mutations ms (mutate df s)"
    by (simp add: mutations_def)
  then show ?case
    using Cons.IH [of "mutate df s"] mutate_pending [OF Cons.prems, of df] by simp
qed

lemma find_append_none:
  "\<forall>x \<in> set xs. \<not> P x \<Longrightarrow> find P (xs @ ys) = find P ys"
  by (induction xs) auto

lemma fireTimer_last:
  assumes ts: "timers s = old @ [(n, deadline, PersistCallback)]"
    and old: "\<forall>(i, dl, cb) \<in> set old. i < n"
  shows "now s < deadline \<Longrightarrow> fireTimer n s = s"
    and "deadline \<le> now s \<Longrightarrow> fireTimer n s = persistCallback (s\<lparr>timers := old\<rparr>)"
proof -
  have no: "\<forall>x \<in> set old. \<not> (case x of (j, dl, cb) \<Rightarrow> j = n \<and> dl \<le> now s)"
    using old by fastforce
  have find: "find (\<lambda>(j, dl, cb). j = n \<and> dl \<le> now s) (timers s)
                = (if deadline \<le> now s then Some (n, deadline, PersistCallback) else None)"
    unfolding ts find_append_none [OF no] by simp
  have "\<forall>x \<in> set old. (case x of (j', d', cb') \<Rightarrow> j' \<noteq> n)"
    using old by fastforce
  then have keep: "filter (\<lambda>(j', d', cb'). j' \<noteq> n) old = old"
    by (rule filter_True)
  show "now s < deadline \<Longrightarrow> fireTimer n s = s"
    unfolding fireTimer_def find by simp
  show "deadline \<le> now s \<Longrightarrow> fireTimer n s = persistCallback (s\<lparr>timers := old\<rparr>)"
    unfolding fireTimer_def find by (simp add: ts keep runCallback_def)
qed

text \<open>
  C6. Take a reachable state with no write pending, and any \<open>N \<ge> 1\<close> mutations of the
  mapping, the first \<open>d\<close> ms from now, each followed by \<open>updateBadge\<close> as in the handlers,
  with no persistence callback in between. Then exactly one persistence timer is pending,
  due 2000 ms after the first mutation; while it is pending \<open>schedulePersist\<close> changes
  nothing; nothing has been written to storage yet; before its deadline the timer does not
  fire; and when it fires, at or after the deadline, storage receives exactly one write, of
  the records of the mapping as it is then, after which no persistence timer is pending.
\<close>

theorem schedulePersist_coalesces:
  assumes "reachable s" and "persistTimeout s = None"
  shows "persistTimers (mutations ((d, f) # rest) s)
           = [(nextTimerId s, now s + d + 2000, PersistCallback)]
       \<and> persistTimeout (mutations ((d, f) # rest) s) = Some (nextTimerId s)
       \<and> schedulePersist (mutations ((d, f) # rest) s) = mutations ((d, f) # rest) s
       \<and> setCalls (mutations ((d, f) # rest) s) = setCalls s
       \<and> (\<forall>t. t < now s + d + 2000 \<longrightarrow>
            fireTimer (nextTimerId s) ((mutations ((d, f) # rest) s)\<lparr>now := t\<rparr>)
              = (mutations ((d, f) # rest) s)\<lparr>now := t\<rparr>)
       \<and> (\<forall>t. now s + d + 2000 \<le> t \<longrightarrow>
            setCalls (fireTimer (nextTimerId s) ((mutations ((d, f) # rest) s)\<lparr>now := t\<rparr>))
              = setCalls s @ [SetCache (mapValues (tabDurations (mutations ((d, f) # rest) s)))]
            \<and> tabDurationsCache
                (storageLocal (fireTimer (nextTimerId s) ((mutations ((d, f) # rest) s)\<lparr>now := t\<rparr>)))
              = Some (map Cached (mapValues (tabDurations (mutations ((d, f) # rest) s))))
            \<and> persistTimers (fireTimer (nextTimerId s) ((mutations ((d, f) # rest) s)\<lparr>now := t\<rparr>)) = []
            \<and> persistTimeout (fireTimer (nextTimerId s) ((mutations ((d, f) # rest) s)\<lparr>now := t\<rparr>)) = None)"
proof -
  let ?n = "nextTimerId s" and ?D = "now s + d + 2000"
  let ?s' = "mutations ((d, f) # rest) s"
  from reachable_timersInv [OF assms(1)] assms(2)
  have bound: "\<forall>(i, dl, cb) \<in> set (timers s). i < ?n" and idle: "persistTimers s = []"
    by (simp_all add: timersInv_def)
  have unfold: "?s' = mutations rest (mutate (d, f) s)"
    by (simp add: mutations_def)
  note first = mutate_idle [OF assms(2), of d f]
  note later = mutations_pending [OF first(2), of rest, folded unfold]
  have ts: "timers ?s' = timers s @ [(?n, ?D, PersistCallback)]"
    and pt: "persistTimeout ?s' = Some ?n"
    and sc: "setCalls ?s' = setCalls s"
    using later first by simp_all
  have p1: "persistTimers ?s' = [(?n, ?D, PersistCallback)]"
    using idle by (simp add: persistTimers_def ts)
  have p2: "schedulePersist ?s' = ?s'"
    by (simp add: schedulePersist_def pt)
  have early: "fireTimer ?n (?s'\<lparr>now := t\<rparr>) = ?s'\<lparr>now := t\<rparr>" if "t < ?D" for t
    using fireTimer_last(1) [of "?s'\<lparr>now := t\<rparr>" "timers s" ?n ?D] ts bound that by simp
  have due: "fireTimer ?n (?s'\<lparr>now := t\<rparr>) = persistCallback (?s'\<lparr>now := t, timers := timers s\<rparr>)"
    if "?D \<le> t" for t
    using fireTimer_last(2) [of "?s'\<lparr>now := t\<rparr>" "timers s" ?n ?D] ts bound that by simp
  have after: "setCalls (persistCallback (?s'\<lparr>now := t, timers := timers s\<rparr>))
                 = setCalls s @ [SetCache (mapValues (tabDurations ?s'))]
        \<and> tabDurationsCache (storageLocal (persistCallback (?s'\<lparr>now := t, timers := timers s\<rparr>)))
                 = Some (map Cached (mapValues (tabDurations ?s')))
        \<and> persistTimers (persistCallback (?s'\<lparr>now := t, timers := timers s\<rparr>)) = []
        \<and> persistTimeout (persistCallback (?s'\<lparr>now := t, timers := timers s\<rparr>)) = None" for t
    using idle by (simp add: persistCallback_def Let_def sc persistTimers_def)
  show ?thesis
    using p1 pt p2 sc early due after by presburger
qed

lemma mutate_tabDurations: "tabDurations (mutate df s) = snd df (tabDurations s)"
  by (simp add: mutate_def)

lemma sampleMutations_tabDurations:
  "tabDurations (mutations sampleMutations installed) =
     [(Num 8, \<lparr>tabId = Num 8, url = ''https://www.youtube.com/shorts/b'', title = ''b'',
               durationSeconds = Num 30, currentTimeSeconds = Num 0, playbackRate = None,
               isLoading = False, videoType = Short, isLiveStream = None\<rparr>)]"
  by (simp add: mutations_def sampleMutations_def laterMutations_def storeTab7_def
        mutate_tabDurations installed_def mapDelete_def)

text \<open>From installation, three mutations within 1200 ms leave one timer due at 2000 ms
  and no write; firing it at 2000 ms writes the one record then in the mapping.\<close>

theorem schedulePersist_coalesces_witness:
  "reachable installed \<and> persistTimeout installed = None
   \<and> length sampleMutations = 3
   \<and> persistTimers (mutations sampleMutations installed) = [(0, 2000, PersistCallback)]
   \<and> setCalls (mutations sampleMutations installed) = []
   \<and> setCalls (fireTimer 0 ((mutations sampleMutations installed)\<lparr>now := 2000\<rparr>)) =
       [SetCache [\<lparr>tabId = Num 8, url = ''https://www.youtube.com/shorts/b'', title = ''b'',
                   durationSeconds = Num 30, currentTimeSeconds = Num 0, playbackRate = None,
                   isLoading = False, videoType = Short, isLiveStream = None\<rparr>]]
   \<and> persistTimers (fireTimer 0 ((mutations sampleMutations installed)\<lparr>now := 2000\<rparr>)) = []"
proof -
  have idle: "persistTimeout installed = None" and zero: "nextTimerId installed = 0"
    and start: "now installed = 0" and none: "setCalls installed = []"
    by (simp_all add: installed_def)
  note all = schedulePersist_coalesces [OF reachable.install idle, of 0 storeTab7 laterMutations,
      folded sampleMutations_def, unfolded zero start none]
  from all have timers: "persistTimers (mutations sampleMutations installed) = [(0, 2000, PersistCallback)]"
    and calls: "setCalls (mutations sampleMutations installed) = []"
    by simp_all
  from all have "(0::nat) + 0 + 2000 \<le> 2000 \<longrightarrow>
      setCalls (fireTimer 0 ((mutations sampleMutations installed)\<lparr>now := 2000\<rparr>))
         = [] @ [SetCache (mapValues (tabDurations (mutations sampleMutations installed)))]
      \<and> tabDurationsCache (storageLocal (fireTimer 0 ((mutations sampleMutations installed)\<lparr>now := 2000\<rparr>)))
         = Some (map Cached (mapValues (tabDurations (mutations sampleMutations installed))))
      \<and> persistTimers (fireTimer 0 ((mutations sampleMutations installed)\<lparr>now := 2000\<rparr>)) = []
      \<and> persistTimeout (fireTimer 0 ((mutations sampleMutations installed)\<lparr>now := 2000\<rparr>)) = None"
    by blast
  then have fired: "setCalls (fireTimer 0 ((mutations sampleMutations installed)\<lparr>now := 2000\<rparr>))
         = [SetCache (mapValues (tabDurations (mutations sampleMutations installed)))]"
    and gone: "persistTimers (fireTimer 0 ((mutations sampleMutations installed)\<lparr>now := 2000\<rparr>)) = []"
    by simp_all
  have len: "length sampleMutations = 3"
    by (simp add: sampleMutations_def laterMutations_def)
  show ?thesis
    using reachable.install idle len timers calls gone
    by (simp add: fired sampleMutations_tabDurations mapValues_def)
qed

section \<open>The extractor\<close>


lemmas extract_eval =
  extractDuration_def getMainVideo_def isLiveStream_page_def getPageDataDuration_def
  fromPageData_def startsWith_def trim_def isSpace_def Let_def

lemma extractDuration_watchPage:
  "extractDuration watchPage =
     Inr \<lparr>DurationResponse.durationSeconds = Num (425 / 2),
          DurationResponse.currentTimeSeconds = Num 12,
          DurationResponse.isLiveStream = False,
          DurationResponse.isLoading = False,
          DurationResponse.videoType = Video,
          DurationResponse.url = ''https://www.youtube.com/watch?v=a'',
          DurationResponse.title = ''A talk''\<rparr>"
  by (simp add: watchPage_def extract_eval)

lemma extractDuration_blankPage:
  "extractDuration blankPage =
     Inr \<lparr>DurationResponse.durationSeconds = Num 0,
          DurationResponse.currentTimeSeconds = Num 0,
          DurationResponse.isLiveStream = False,
          DurationResponse.isLoading = True,
          DurationResponse.videoType = Video,
          DurationResponse.url = ''https://www.youtube.com/watch?v=b'',
          DurationResponse.title = ''YouTube''\<rparr>"
  by (simp add: blankPage_def extract_eval)

lemma extractDuration_livePage: "extractDuration livePage = Inr liveReport"
  by (simp add: livePage_def liveReport_def extract_eval)


section \<open>Live streams and the aggregate\<close>

text \<open>
  C1 does not hold of the code. The extractor marks the live page's report live, with
  \<open>isLoading = false\<close> and the player's finite duration. The push handler stores the record
  without the flag, and \<open>calculateTotalRemaining\<close> tests \<open>isLoading\<close> only: the record adds
  its 3000 remaining seconds to the total. A record of the mapping that is itself marked
  live, which the detail view labels \<open>LIVE\<close>, adds them as well.
\<close>

theorem live_record_counted:
  "extractDuration livePage = Inr liveReport
   \<and> DurationResponse.isLiveStream liveReport
   \<and> map isLiveStream (mapValues (tabDurations (onReportDuration (Some (Num 5)) liveReport installed)))
       = [None]
   \<and> calculateTotalRemaining (tabDurations (onReportDuration (Some (Num 5)) liveReport installed))
       = Num 3000
   \<and> isLiveStream liveRecord = Some True
   \<and> createTabRow_duration liveRecord = ''LIVE''
   \<and> calculateTotalRemaining liveTabs = Num 3000"
  by (simp add: extractDuration_livePage)
     (simp add: liveReport_def liveTabs_def liveRecord_def createTabRow_duration_def
        onReportDuration_def isYouTubeVideoUrl_def startsWith_def
        installed_def mapValues_def calculateTotalRemaining_def rateOrOne_def num_sub_def)

end
